theory Spec2Isabelle
  imports Main
begin

section \<open>The JoyCaption adapter of x.infer\<close>

text \<open>
  A shallow embedding of \<^verbatim>\<open>src/xinfer/transformers/joycaption.py\<close>.

  The adapter orchestrates collaborators that are not part of the file: the image
  pipeline (PIL and torchvision), the Hugging Face tokenizer and the LLaVA model. They are
  values here: records of functions that may raise. Whatever they compute is left open;
  what the adapter does around them is modelled the way the source writes it. Pixel data
  is floating point and stays an abstract type \<open>'img\<close>.

  Python exceptions are values of type \<open>error\<close>; a fallible computation returns
  \<open>error + 'a\<close> with \<open>Inl\<close> for the raised exception.
\<close>

subsection \<open>Values\<close>

datatype error =
    ValueError string
  | TypeError string
  | IndexError string
  | ExternalError string

datatype pyval = PyNone | PyBool bool | PyInt int | PyStr string

type_synonym kwargs = "string \<rightharpoonup> pyval"

datatype torch_dtype = Float32 | Float16 | BFloat16

text \<open>A two-dimensional integer tensor is the list of its rows; a one-dimensional one a list.\<close>

type_synonym tensor1 = "int list"
type_synonym tensor2 = "int list list"

text \<open>\<^verbatim>\<open>t.shape[1]\<close> of a tensor with at least one row.\<close>

definition shape1 :: "tensor2 \<Rightarrow> nat" where
  "shape1 t = (case t of [] \<Rightarrow> 0 | r # _ \<Rightarrow> length r)"

subsection \<open>Collaborators\<close>

record turn =
  role :: string
  content :: "string option"

record Tokenizer =
  apply_chat_template :: "turn list \<Rightarrow> error + string"
  encode :: "string \<Rightarrow> error + int list"
  decode :: "int list \<Rightarrow> error + string"

record model_config =
  image_token_index :: int
  image_seq_length :: int

text \<open>The keyword arguments one call of \<^verbatim>\<open>model.generate\<close> receives.\<close>

record 'img gen_call =
  input_ids :: tensor2
  pixel_values :: "'img list"
  attention_mask :: tensor2
  do_sample :: bool
  suppress_tokens :: "int list option"
  use_cache :: bool
  options :: kwargs

record 'img Llava =
  config :: model_config
  generate :: "'img gen_call \<Rightarrow> error + tensor2"

text \<open>
  The libraries the module imports: the image pipeline of lines 37-43 (open, convert to
  RGB, resize to 384 x 384, scale, normalise, cast to the precision), the two
  \<^verbatim>\<open>from_pretrained\<close> loaders (the model loader includes the move to the device and
  precision), and the autocast scope of lines 85-87 and 172-174:
  \<^verbatim>\<open>torch.amp.autocast(device_type, dtype)\<close> raises when it is built for a device type
  it does not support, and is entered otherwise (\<open>None\<close>).
\<close>

record 'img lib =
  autocast :: "string \<Rightarrow> torch_dtype \<Rightarrow> error option"
  load_image :: "string \<Rightarrow> torch_dtype \<Rightarrow> error + 'img"
  tokenizer_from_pretrained :: "string \<Rightarrow> error + Tokenizer"
  model_from_pretrained :: "string \<Rightarrow> kwargs \<Rightarrow> string \<Rightarrow> torch_dtype \<Rightarrow> error + 'img Llava"

text \<open>
  Calls that reach a loader or the generation capability are effects: the world keeps
  them, in call order.
\<close>

record 'img world =
  load_calls :: "(string \<times> string) list"
  generate_calls :: "'img gen_call list"

subsection \<open>Stats and the base adapter\<close>

text \<open>
  Modelled from the spec: \<^verbatim>\<open>Stats\<close> and \<^verbatim>\<open>BaseModel\<close> live in
  \<^verbatim>\<open>xinfer/models.py\<close>, which is not among the sources. The spec describes a running
  inference count "incremented by completed-call count" through a counter-increment call
  taking the number of completed inferences, and a timing scope that feeds the elapsed
  time only. Elapsed time is wall-clock time and is not modelled.
\<close>

record Stats =
  inference_count :: nat

definition update_inference_count :: "nat \<Rightarrow> Stats \<Rightarrow> Stats" where
  "update_inference_count n s = s\<lparr>inference_count := inference_count s + n\<rparr>"

record BaseModel =
  model_id :: string
  device :: string
  dtype :: torch_dtype
  stats :: Stats

text \<open>
  Modelled from the spec: the base constructor stores identifier, device and precision
  and creates the instance's own Stats object.
\<close>

definition BaseModel_init :: "string \<Rightarrow> string \<Rightarrow> torch_dtype \<Rightarrow> BaseModel" where
  "BaseModel_init mid dev dt =
     \<lparr>model_id = mid, device = dev, dtype = dt, stats = \<lparr>inference_count = 0\<rparr>\<rparr>"

record 'img JoyCaption = BaseModel +
  tokenizer :: Tokenizer
  model :: "'img Llava"

subsection \<open>Construction (lines 16-34)\<close>

definition dtype_map :: "string \<rightharpoonup> torch_dtype" where
  "dtype_map = [''float32'' \<mapsto> Float32, ''float16'' \<mapsto> Float16, ''bfloat16'' \<mapsto> BFloat16]"

text \<open>The message of line 23, without its quotation marks.\<close>

definition dtype_error :: error where
  "dtype_error = ValueError ''dtype must be one of float32, float16, or bfloat16''"

definition load_model ::
  "'img lib \<Rightarrow> BaseModel \<Rightarrow> kwargs \<Rightarrow> 'img world \<Rightarrow> (error + 'img JoyCaption) \<times> 'img world" where
  "load_model l self kw w =
     (let w1 = w\<lparr>load_calls := load_calls w @ [(''AutoTokenizer'', model_id self)]\<rparr> in
      case tokenizer_from_pretrained l (model_id self) of
        Inl e \<Rightarrow> (Inl e, w1)
      | Inr tok \<Rightarrow>
          (let w2 = w1\<lparr>load_calls :=
                     load_calls w1 @ [(''LlavaForConditionalGeneration'', model_id self)]\<rparr> in
           case model_from_pretrained l (model_id self) kw (device self) (dtype self) of
             Inl e \<Rightarrow> (Inl e, w2)
           | Inr m \<Rightarrow>
               (Inr \<lparr>model_id = model_id self, device = device self, dtype = dtype self,
                     stats = stats self, tokenizer = tok, model = m\<rparr>, w2)))"

definition JoyCaption_init ::
  "'img lib \<Rightarrow> string \<Rightarrow> string \<Rightarrow> string \<Rightarrow> kwargs \<Rightarrow> 'img world
     \<Rightarrow> (error + 'img JoyCaption) \<times> 'img world" where
  "JoyCaption_init l mid dev dtype_name kw w =
     (case dtype_map dtype_name of
        None \<Rightarrow> (Inl dtype_error, w)
      | Some dt \<Rightarrow> load_model l (BaseModel_init mid dev dt) kw w)"

subsection \<open>Single-example preprocessing (lines 36-81)\<close>

definition conversation :: "string option \<Rightarrow> turn list" where
  "conversation prompt =
     [\<lparr>role = ''system'', content = Some ''You are a helpful image captioner.''\<rparr>,
      \<lparr>role = ''user'', content = prompt\<rparr>]"

text \<open>Lines 58-65: render the conversation, then tokenize it.\<close>

definition convo_tokens :: "Tokenizer \<Rightarrow> string option \<Rightarrow> error + int list" where
  "convo_tokens tok prompt =
     (case apply_chat_template tok (conversation prompt) of
        Inl e \<Rightarrow> Inl e
      | Inr convo_string \<Rightarrow> encode tok convo_string)"

text \<open>
  Lines 68-76 (and 142-150, the same text): the loop over \<^verbatim>\<open>convo_tokens\<close> that
  builds \<^verbatim>\<open>input_tokens\<close>. Python's \<^verbatim>\<open>[x] * n\<close> is empty for \<open>n \<le> 0\<close>.
\<close>

fun repeat_image_tokens :: "model_config \<Rightarrow> int list \<Rightarrow> int list \<Rightarrow> int list" where
  "repeat_image_tokens c input_tokens [] = input_tokens"
| "repeat_image_tokens c input_tokens (token # rest) =
     (if token = image_token_index c
      then repeat_image_tokens c
             (input_tokens @ replicate (nat (image_seq_length c)) (image_token_index c)) rest
      else repeat_image_tokens c (input_tokens @ [token]) rest)"

definition ones_like :: "tensor2 \<Rightarrow> tensor2" where
  "ones_like t = map (map (\<lambda>_. 1)) t"

definition preprocess ::
  "'img lib \<Rightarrow> 'img JoyCaption \<Rightarrow> string \<Rightarrow> string option
     \<Rightarrow> error + ('img list \<times> tensor2 \<times> tensor2)" where
  "preprocess l self image_path prompt =
     (case load_image l image_path (dtype self) of
        Inl e \<Rightarrow> Inl e
      | Inr img \<Rightarrow>
          (case convo_tokens (tokenizer self) prompt of
             Inl e \<Rightarrow> Inl e
           | Inr toks \<Rightarrow>
               (let input_tokens = repeat_image_tokens (config (model self)) [] toks;
                    ids = [input_tokens];
                    attn_mask = ones_like ids
                in Inr ([img], ids, attn_mask))))"

subsection \<open>The generation call (lines 90-101 and 179-190)\<close>

text \<open>Lines 90-91: the default of \<^verbatim>\<open>max_new_tokens\<close>, decided by the key's presence.\<close>

definition default_max_new_tokens :: "kwargs \<Rightarrow> kwargs" where
  "default_max_new_tokens generate_kwargs =
     (if generate_kwargs ''max_new_tokens'' = None
      then generate_kwargs(''max_new_tokens'' \<mapsto> PyInt 300)
      else generate_kwargs)"

text \<open>
  The call names six keywords itself and unpacks \<^verbatim>\<open>**generate_kwargs\<close> after them.
  Python raises TypeError, before the callee runs, when the unpacked dictionary repeats
  one of the named keywords. Moving a tensor to the device does not change its values.
\<close>

definition explicit_keywords :: "string list" where
  "explicit_keywords =
     [''input_ids'', ''pixel_values'', ''attention_mask'',
      ''do_sample'', ''suppress_tokens'', ''use_cache'']"

definition repeats_keyword :: "kwargs \<Rightarrow> bool" where
  "repeats_keyword generate_kwargs =
     (\<exists>k \<in> set explicit_keywords. generate_kwargs k \<noteq> None)"

definition call_generate ::
  "'img Llava \<Rightarrow> tensor2 \<Rightarrow> 'img list \<Rightarrow> tensor2 \<Rightarrow> kwargs \<Rightarrow> 'img world
     \<Rightarrow> (error + tensor2) \<times> 'img world" where
  "call_generate m ids pix attn_mask generate_kwargs w =
     (if repeats_keyword generate_kwargs
      then (Inl (TypeError ''got multiple values for keyword argument''), w)
      else
        (let c = \<lparr>input_ids = ids, pixel_values = pix, attention_mask = attn_mask,
                  do_sample = True, suppress_tokens = None, use_cache = True,
                  options = generate_kwargs\<rparr>
         in (generate m c, w\<lparr>generate_calls := generate_calls w @ [c]\<rparr>)))"

subsection \<open>Single-example inference (lines 83-115)\<close>

text \<open>
  \<^verbatim>\<open>str.strip()\<close> removes leading and trailing whitespace. A character is a code point
  below 256 here; these are the ones Python's \<^verbatim>\<open>str.isspace\<close> accepts.
\<close>

definition py_whitespace :: "char list" where
  "py_whitespace =
     [CHR 0x09, CHR 0x0A, CHR 0x0B, CHR 0x0C, CHR 0x0D, CHR 0x1C, CHR 0x1D, CHR 0x1E,
      CHR 0x1F, CHR 0x20, CHR 0x85, CHR 0xA0]"

definition py_isspace :: "char \<Rightarrow> bool" where
  "py_isspace c = (c \<in> set py_whitespace)"

definition py_strip :: "string \<Rightarrow> string" where
  "py_strip s = rev (dropWhile py_isspace (rev (dropWhile py_isspace s)))"

text \<open>
  The body runs inside the autocast scope, which is built first and may raise before
  anything else happens. The timing scope and the inference-mode scope change no value
  the adapter computes and are left out. An exception leaves the function at once, so
  \<^verbatim>\<open>update_inference_count\<close> on line 113 runs only when everything before it
  returned.
\<close>

definition infer ::
  "'img lib \<Rightarrow> 'img JoyCaption \<Rightarrow> string \<Rightarrow> string option \<Rightarrow> kwargs \<Rightarrow> 'img world
     \<Rightarrow> (error + string) \<times> 'img JoyCaption \<times> 'img world" where
  "infer l self image_path prompt generate_kwargs w =
     (case autocast l (device self) (dtype self) of
        Some e \<Rightarrow> (Inl e, self, w)
      | None \<Rightarrow>
     (case preprocess l self image_path prompt of
        Inl e \<Rightarrow> (Inl e, self, w)
      | Inr (img, ids, attn_mask) \<Rightarrow>
          (case call_generate (model self) ids img attn_mask
                  (default_max_new_tokens generate_kwargs) w of
             (Inl e, w') \<Rightarrow> (Inl e, self, w')
           | (Inr out, w') \<Rightarrow>
               (case out of
                  [] \<Rightarrow> (Inl (IndexError ''index 0 is out of bounds''), self, w')
                | generate_ids # _ \<Rightarrow>
                    (case decode (tokenizer self) (drop (shape1 ids) generate_ids) of
                       Inl e \<Rightarrow> (Inl e, self, w')
                     | Inr caption \<Rightarrow>
                         (Inr (py_strip caption),
                          self\<lparr>stats := update_inference_count 1 (stats self)\<rparr>, w'))))))"

subsection \<open>Batched preprocessing (lines 117-168)\<close>

text \<open>The loop over \<^verbatim>\<open>zip(images, prompts)\<close>, lines 122-153.\<close>

fun preprocess_pairs ::
  "'img lib \<Rightarrow> 'img JoyCaption \<Rightarrow> (string \<times> string) list \<Rightarrow> 'img list \<Rightarrow> tensor1 list
     \<Rightarrow> error + ('img list \<times> tensor1 list)" where
  "preprocess_pairs l self [] processed_images input_ids_list =
     Inr (processed_images, input_ids_list)"
| "preprocess_pairs l self ((image_path, prompt) # rest) processed_images input_ids_list =
     (case load_image l image_path (dtype self) of
        Inl e \<Rightarrow> Inl e
      | Inr img \<Rightarrow>
          (case convo_tokens (tokenizer self) (Some prompt) of
             Inl e \<Rightarrow> Inl e
           | Inr toks \<Rightarrow>
               preprocess_pairs l self rest (processed_images @ [img])
                 (input_ids_list @ [repeat_image_tokens (config (model self)) [] toks])))"

text \<open>Line 156: \<^verbatim>\<open>max\<close> over a generator raises ValueError when there is nothing to compare.\<close>

definition max_length_of :: "tensor1 list \<Rightarrow> error + nat" where
  "max_length_of input_ids_list =
     (case input_ids_list of
        [] \<Rightarrow> Inl (ValueError ''max() iterable argument is empty'')
      | ids # rest \<Rightarrow> Inr (fold (\<lambda>x m. max m (length x)) rest (length ids)))"

text \<open>
  The loop of lines 160-163 over \<^verbatim>\<open>enumerate(input_ids_list)\<close>: row \<open>i\<close> of the zero
  matrix receives \<open>ids\<close> in its first \<open>len(ids)\<close> columns; a row of ones, zeroed from
  column \<open>len(ids)\<close> on, joins the masks. The index is always a row of the matrix.
\<close>

fun pad_rows :: "nat \<Rightarrow> (nat \<times> tensor1) list \<Rightarrow> tensor2 \<Rightarrow> tensor1 list \<Rightarrow> tensor2 \<times> tensor1 list" where
  "pad_rows max_length [] padded_input_ids attention_masks =
     (padded_input_ids, attention_masks)"
| "pad_rows max_length ((i, ids) # rest) padded_input_ids attention_masks =
     pad_rows max_length rest
       (padded_input_ids[i := ids @ drop (length ids) (padded_input_ids ! i)])
       (attention_masks @
          [take (length ids) (replicate max_length 1) @ replicate (max_length - length ids) 0])"

definition preprocess_batch ::
  "'img lib \<Rightarrow> 'img JoyCaption \<Rightarrow> string list \<Rightarrow> string list
     \<Rightarrow> error + ('img list \<times> tensor2 \<times> tensor2)" where
  "preprocess_batch l self images prompts =
     (case preprocess_pairs l self (zip images prompts) [] [] of
        Inl e \<Rightarrow> Inl e
      | Inr (processed_images, input_ids_list) \<Rightarrow>
          (case max_length_of input_ids_list of
             Inl e \<Rightarrow> Inl e
           | Inr max_length \<Rightarrow>
               (case pad_rows max_length (enumerate 0 input_ids_list)
                       (replicate (length input_ids_list) (replicate max_length 0)) [] of
                  (padded_input_ids, attention_masks) \<Rightarrow>
                    Inr (processed_images, padded_input_ids, attention_masks))))"

subsection \<open>Batched inference (lines 170-207)\<close>

text \<open>The loop of lines 193-203: every row is cut at the same column \<open>n\<close>.\<close>

fun decode_rows :: "Tokenizer \<Rightarrow> nat \<Rightarrow> tensor2 \<Rightarrow> string list \<Rightarrow> error + string list" where
  "decode_rows tok n [] captions = Inr captions"
| "decode_rows tok n (gen_ids # rest) captions =
     (case decode tok (drop n gen_ids) of
        Inl e \<Rightarrow> Inl e
      | Inr caption \<Rightarrow> decode_rows tok n rest (captions @ [py_strip caption]))"

text \<open>
  The body runs inside the autocast scope of lines 172-174, as in \<^verbatim>\<open>infer\<close>. Line 175
  rebinds \<^verbatim>\<open>images\<close> to the stacked image tensor, so \<^verbatim>\<open>len(images)\<close> on line 205
  is the number of images that were processed.
\<close>

definition infer_batch ::
  "'img lib \<Rightarrow> 'img JoyCaption \<Rightarrow> string list \<Rightarrow> string list \<Rightarrow> kwargs \<Rightarrow> 'img world
     \<Rightarrow> (error + string list) \<times> 'img JoyCaption \<times> 'img world" where
  "infer_batch l self images prompts generate_kwargs w =
     (case autocast l (device self) (dtype self) of
        Some e \<Rightarrow> (Inl e, self, w)
      | None \<Rightarrow>
     (case preprocess_batch l self images prompts of
        Inl e \<Rightarrow> (Inl e, self, w)
      | Inr (images_tensor, ids, attn_mask) \<Rightarrow>
          (case call_generate (model self) ids images_tensor attn_mask
                  (default_max_new_tokens generate_kwargs) w of
             (Inl e, w') \<Rightarrow> (Inl e, self, w')
           | (Inr generate_ids, w') \<Rightarrow>
               (case decode_rows (tokenizer self) (shape1 ids) generate_ids [] of
                  Inl e \<Rightarrow> (Inl e, self, w')
                | Inr captions \<Rightarrow>
                    (Inr captions,
                     self\<lparr>stats := update_inference_count (length images_tensor) (stats self)\<rparr>,
                     w')))))"

subsection \<open>The registry\<close>

text \<open>
  Modelled from the spec: \<^verbatim>\<open>register_model\<close> and the registry live in
  \<^verbatim>\<open>xinfer/model_registry.py\<close>, which is not among the sources; only the
  decorator's application on lines 10-14 is. The spec describes a mapping from a model
  identifier to an entry (identifier, backend-kind tag, capability, constructor
  reference); \<^verbatim>\<open>register\<close> inserts an entry and returns the class unchanged;
  \<^verbatim>\<open>resolve\<close> fails with \<^verbatim>\<open>NotFoundError\<close> when the identifier is absent.
  Re-registration "either errors or overwrites deterministically (policy choice)": the
  policy is a parameter. Of the capability enumeration the sources name one member.
\<close>

datatype ModelInputOutput = IMAGE_TEXT_TO_TEXT | Other_capability string

datatype registry_error = NotFoundError string | AlreadyRegistered string

datatype reregistration = Overwrite | Reject

record 'c RegistryEntry =
  entry_identifier :: string
  entry_backend_kind :: string
  entry_capability :: ModelInputOutput
  entry_constructor :: 'c

type_synonym 'c registry = "string \<rightharpoonup> 'c RegistryEntry"

definition register ::
  "reregistration \<Rightarrow> string \<Rightarrow> string \<Rightarrow> ModelInputOutput \<Rightarrow> 'c \<Rightarrow> 'c registry
     \<Rightarrow> registry_error + ('c \<times> 'c registry)" where
  "register policy ident kind cap cls reg =
     (if policy = Reject \<and> reg ident \<noteq> None then Inl (AlreadyRegistered ident)
      else Inr (cls, reg(ident \<mapsto>
             \<lparr>entry_identifier = ident, entry_backend_kind = kind, entry_capability = cap,
               entry_constructor = cls\<rparr>)))"

definition resolve :: "'c registry \<Rightarrow> string \<Rightarrow> registry_error + 'c" where
  "resolve reg ident =
     (case reg ident of None \<Rightarrow> Inl (NotFoundError ident) | Some e \<Rightarrow> Inr (entry_constructor e))"

text \<open>Lines 10-15: the decorator applied to the adapter class, whose constructor is
  \<open>JoyCaption_init\<close>.\<close>

definition register_JoyCaption ::
  "reregistration \<Rightarrow> 'c \<Rightarrow> 'c registry \<Rightarrow> registry_error + ('c \<times> 'c registry)" where
  "register_JoyCaption policy cls reg =
     register policy ''fancyfeast/llama-joycaption-alpha-two-hf-llava'' ''transformers''
       IMAGE_TEXT_TO_TEXT cls reg"

subsection \<open>The expansion and the padding, stated directly\<close>

text \<open>
  What the spec says of the expansion: each occurrence of the placeholder id becomes
  \<open>n\<close> copies of it, in place; every other token passes through.
\<close>

definition expand_in_place :: "int \<Rightarrow> int \<Rightarrow> int list \<Rightarrow> int list" where
  "expand_in_place p n toks =
     concat (map (\<lambda>t. if t = p then replicate (nat n) p else [t]) toks)"

text \<open>What the spec says of the padding: right-padded with 0; the mask marks the originals.\<close>

definition pad_right :: "nat \<Rightarrow> int list \<Rightarrow> int list" where
  "pad_right width ids = ids @ replicate (width - length ids) 0"

definition mask_right :: "nat \<Rightarrow> int list \<Rightarrow> int list" where
  "mask_right width ids = replicate (length ids) 1 @ replicate (width - length ids) 0"

subsection \<open>A small instance\<close>

text \<open>
  A toy tokenizer and model to run the adapter on: the template puts the image marker
  \<open>@\<close> before the user's text, the tokenizer maps the marker to the placeholder id 9,
  \<open>a\<close> to 1 and anything else to 2 (decoding 1 to \<open>a\<close>, 2 to \<open>b\<close> and any other
  id to \<open>!\<close>), and the model appends the tokens 1 and 2 to every row, returns its
  input when asked for no new tokens and raises when asked for \<open>-1\<close>. Images are
  numbers, and the autocast scope exists for the device types \<open>cpu\<close> and \<open>cuda\<close>.
\<close>

definition toy_tokenizer :: Tokenizer where
  "toy_tokenizer =
     \<lparr>apply_chat_template =
        (\<lambda>convo. Inr (CHR ''@'' #
           concat (map (\<lambda>t. case content t of None \<Rightarrow> [] | Some s \<Rightarrow> s) (tl convo)))),
      encode = (\<lambda>s. Inr (map (\<lambda>c. if c = CHR ''@'' then 9 else if c = CHR ''a'' then 1 else 2) s)),
      decode = (\<lambda>ids. Inr (map (\<lambda>i. if i = 1 then CHR ''a'' else if i = 2 then CHR ''b''
                                     else CHR ''!'') ids))\<rparr>"

definition toy_model :: "nat Llava" where
  "toy_model =
     \<lparr>config = \<lparr>image_token_index = 9, image_seq_length = 3\<rparr>,
      generate = (\<lambda>c. if options c ''max_new_tokens'' = Some (PyInt 0) then Inr (input_ids c)
                       else if options c ''max_new_tokens'' = Some (PyInt (- 1))
                       then Inl (ValueError ''max_new_tokens must be greater than 0'')
                       else Inr (map (\<lambda>row. row @ [1, 2]) (input_ids c)))\<rparr>"

definition toy_lib :: "nat lib" where
  "toy_lib =
     \<lparr>autocast = (\<lambda>dev dt. if dev = ''cpu'' \<or> dev = ''cuda'' then None
                               else Some (ExternalError ''RuntimeError'')),
      load_image = (\<lambda>path dt. if path = ''missing.jpg''
                                 then Inl (ExternalError ''FileNotFoundError'')
                                 else Inr (length path)),
      tokenizer_from_pretrained = (\<lambda>mid. Inr toy_tokenizer),
      model_from_pretrained = (\<lambda>mid kw dev dt. if mid = ''nowhere/none''
                                 then Inl (ExternalError ''OSError'') else Inr toy_model)\<rparr>"

definition toy_adapter :: "nat JoyCaption" where
  "toy_adapter =
     \<lparr>model_id = ''toy/model'', device = ''cpu'', dtype = Float32,
      stats = \<lparr>inference_count = 0\<rparr>, tokenizer = toy_tokenizer, model = toy_model\<rparr>"

definition toy_world :: "nat world" where
  "toy_world = \<lparr>load_calls = [], generate_calls = []\<rparr>"

section \<open>Image-token expansion\<close>

lemma repeat_image_tokens_acc:
  "repeat_image_tokens c acc toks =
     acc @ expand_in_place (image_token_index c) (image_seq_length c) toks"
  by (induction toks arbitrary: acc) (simp_all add: expand_in_place_def)

lemma length_expand_in_place:
  "0 \<le> n \<Longrightarrow>
   int (length (expand_in_place p n toks)) =
     int (length toks) + int (count_list toks p) * (n - 1)"
  by (induction toks) (simp_all add: expand_in_place_def algebra_simps)

lemma filter_expand_in_place:
  "filter (\<lambda>t. t \<noteq> p) (expand_in_place p n toks) = filter (\<lambda>t. t \<noteq> p) toks"
  by (induction toks) (simp_all add: expand_in_place_def)

text \<open>
  C1. The loop of lines 68-76 and 142-150, started on the empty list as both
  \<^verbatim>\<open>preprocess\<close> and \<^verbatim>\<open>preprocess_batch\<close> start it, turns a token sequence with
  \<open>k\<close> occurrences of the placeholder id into one of length \<open>len + k * (N - 1)\<close>, for an
  image sequence length \<open>N \<ge> 0\<close>: each occurrence is replaced in place by \<open>N\<close> copies
  of the placeholder id, and the other tokens keep their values and their order.
\<close>

theorem C1_image_token_expansion:
  assumes "0 \<le> image_seq_length c"
  shows "repeat_image_tokens c [] toks =
           expand_in_place (image_token_index c) (image_seq_length c) toks
       \<and> int (length (repeat_image_tokens c [] toks)) =
           int (length toks) + int (count_list toks (image_token_index c)) * (image_seq_length c - 1)
       \<and> filter (\<lambda>t. t \<noteq> image_token_index c) (repeat_image_tokens c [] toks) =
           filter (\<lambda>t. t \<noteq> image_token_index c) toks"
proof -
  have eq: "repeat_image_tokens c [] toks =
              expand_in_place (image_token_index c) (image_seq_length c) toks"
    by (simp add: repeat_image_tokens_acc)
  show ?thesis
    unfolding eq using assms by (simp add: length_expand_in_place filter_expand_in_place)
qed

theorem C1_image_token_expansion_witness:
  "repeat_image_tokens (config toy_model) [] [5, 9, 6, 9] = [5, 9, 9, 9, 6, 9, 9, 9]
     \<and> int (length (repeat_image_tokens (config toy_model) [] [5, 9, 6, 9])) = 4 + 2 * (3 - 1)
     \<and> filter (\<lambda>t. t \<noteq> 9) (repeat_image_tokens (config toy_model) [] [5, 9, 6, 9]) = [5, 6]"
  using C1_image_token_expansion [of "config toy_model" "[5, 9, 6, 9]"]
  by (simp add: toy_model_def expand_in_place_def eval_nat_numeral)

section \<open>Single-example preprocessing\<close>

text \<open>What a successful call of \<^verbatim>\<open>preprocess\<close> returns.\<close>

lemma preprocess_Inr:
  assumes "preprocess l self image_path prompt = Inr (img, ids, attn_mask)"
  shows "\<exists>im toks. load_image l image_path (dtype self) = Inr im \<and>
           convo_tokens (tokenizer self) prompt = Inr toks \<and> img = [im] \<and>
           ids = [repeat_image_tokens (config (model self)) [] toks] \<and>
           attn_mask = [replicate (length (repeat_image_tokens (config (model self)) [] toks)) 1]"
  using assms
  by (auto simp: preprocess_def ones_like_def Let_def map_replicate_const split: sum.splits)

text \<open>
  C8. Whenever \<^verbatim>\<open>preprocess\<close> returns, the token ids are one row, the attention mask
  has the same shape (row for row the same length), and every entry of the mask is 1:
  the single-example path pads nothing.
\<close>

theorem C8_single_mask_all_ones:
  assumes "preprocess l self image_path prompt = Inr (img, ids, attn_mask)"
  shows "map length attn_mask = map length ids
       \<and> (\<forall>row \<in> set attn_mask. \<forall>x \<in> set row. x = 1)
       \<and> (\<exists>input_tokens. ids = [input_tokens])"
proof -
  from preprocess_Inr[OF assms] obtain toks where
    "ids = [repeat_image_tokens (config (model self)) [] toks]"
    "attn_mask = [replicate (length (repeat_image_tokens (config (model self)) [] toks)) 1]"
    by blast
  then show ?thesis by simp
qed

theorem C8_single_mask_all_ones_witness:
  "preprocess toy_lib toy_adapter ''cat.jpg'' (Some ''ab'') =
      Inr ([7], [[9, 9, 9, 1, 2]], [[1, 1, 1, 1, 1]])
   \<and> map length [[1, 1, 1, 1, 1::int]] = map length [[9, 9, 9, 1, 2::int]]"
proof -
  have run: "preprocess toy_lib toy_adapter ''cat.jpg'' (Some ''ab'') =
      Inr ([7], [[9, 9, 9, 1, 2]], [[1, 1, 1, 1, 1]])"
    by (simp add: preprocess_def toy_lib_def toy_adapter_def toy_tokenizer_def toy_model_def
        convo_tokens_def conversation_def ones_like_def eval_nat_numeral)
  from C8_single_mask_all_ones [OF run] show ?thesis using run by simp
qed

section \<open>Construction\<close>

lemma dtype_map_cases:
  "dtype_map n = (if n = ''bfloat16'' then Some BFloat16 else if n = ''float16'' then Some Float16
                  else if n = ''float32'' then Some Float32 else None)"
  by (simp add: dtype_map_def)

lemma load_model_success:
  "tokenizer_from_pretrained l (model_id b) = Inr tok \<Longrightarrow>
   model_from_pretrained l (model_id b) kw (device b) (dtype b) = Inr m \<Longrightarrow>
   fst (load_model l b kw w) =
     Inr \<lparr>model_id = model_id b, device = device b, dtype = dtype b, stats = stats b,
          tokenizer = tok, model = m\<rparr>"
  by (simp add: load_model_def Let_def)

lemma load_model_logs:
  "load_calls (snd (load_model l b kw w)) \<noteq> load_calls w"
  by (simp add: load_model_def Let_def split: sum.splits)

text \<open>
  C3. For each of the three precision names the constructor accepts the name, maps it to
  its dtype, and goes on to load: the loaders are called, and when they return the
  instance is built with that dtype (a loader's failure is the only way construction can
  still fail). For any other name the constructor raises the ValueError of line 23 (the
  spec's \<^verbatim>\<open>InvalidConfigError\<close>) and leaves the world as it was: no loader has been
  called.
\<close>

theorem C3_precision_validation:
  "(dtype_name \<in> {''float32'', ''float16'', ''bfloat16''} \<longrightarrow>
      (\<exists>dt. dtype_map dtype_name = Some dt
         \<and> dt = (if dtype_name = ''float32'' then Float32
                 else if dtype_name = ''float16'' then Float16 else BFloat16)
         \<and> load_calls (snd (JoyCaption_init l mid dev dtype_name kw w)) \<noteq> load_calls w
         \<and> (\<forall>tok m. tokenizer_from_pretrained l mid = Inr tok \<longrightarrow>
                    model_from_pretrained l mid kw dev dt = Inr m \<longrightarrow>
                    fst (JoyCaption_init l mid dev dtype_name kw w) =
                      Inr \<lparr>model_id = mid, device = dev, dtype = dt,
                           stats = \<lparr>inference_count = 0\<rparr>, tokenizer = tok, model = m\<rparr>)))
   \<and> (dtype_name \<notin> {''float32'', ''float16'', ''bfloat16''} \<longrightarrow>
        JoyCaption_init l mid dev dtype_name kw w = (Inl dtype_error, w))"
proof (intro conjI impI)
  assume "dtype_name \<notin> {''float32'', ''float16'', ''bfloat16''}"
  then have "dtype_map dtype_name = None" by (simp add: dtype_map_cases)
  then show "JoyCaption_init l mid dev dtype_name kw w = (Inl dtype_error, w)"
    by (simp add: JoyCaption_init_def)
next
  assume ok: "dtype_name \<in> {''float32'', ''float16'', ''bfloat16''}"
  define dt where "dt = (if dtype_name = ''float32'' then Float32
                 else if dtype_name = ''float16'' then Float16 else BFloat16)"
  from ok have m: "dtype_map dtype_name = Some dt"
    by (auto simp: dtype_map_cases dt_def)
  then have init: "JoyCaption_init l mid dev dtype_name kw w =
                     load_model l (BaseModel_init mid dev dt) kw w"
    by (simp add: JoyCaption_init_def)
  have base: "model_id (BaseModel_init mid dev dt) = mid" "device (BaseModel_init mid dev dt) = dev"
    "dtype (BaseModel_init mid dev dt) = dt"
    "stats (BaseModel_init mid dev dt) = \<lparr>inference_count = 0\<rparr>"
    by (simp_all add: BaseModel_init_def)
  have "\<forall>tok m. tokenizer_from_pretrained l mid = Inr tok \<longrightarrow>
                    model_from_pretrained l mid kw dev dt = Inr m \<longrightarrow>
                    fst (JoyCaption_init l mid dev dtype_name kw w) =
                      Inr \<lparr>model_id = mid, device = dev, dtype = dt,
                           stats = \<lparr>inference_count = 0\<rparr>, tokenizer = tok, model = m\<rparr>"
    using load_model_success[of l "BaseModel_init mid dev dt" _ kw _ w] base init by simp
  moreover have "load_calls (snd (JoyCaption_init l mid dev dtype_name kw w)) \<noteq> load_calls w"
    unfolding init by (rule load_model_logs)
  ultimately show "\<exists>dt. dtype_map dtype_name = Some dt
         \<and> dt = (if dtype_name = ''float32'' then Float32
                 else if dtype_name = ''float16'' then Float16 else BFloat16)
         \<and> load_calls (snd (JoyCaption_init l mid dev dtype_name kw w)) \<noteq> load_calls w
         \<and> (\<forall>tok m. tokenizer_from_pretrained l mid = Inr tok \<longrightarrow>
                    model_from_pretrained l mid kw dev dt = Inr m \<longrightarrow>
                    fst (JoyCaption_init l mid dev dtype_name kw w) =
                      Inr \<lparr>model_id = mid, device = dev, dtype = dt,
                           stats = \<lparr>inference_count = 0\<rparr>, tokenizer = tok, model = m\<rparr>)"
    using m dt_def by blast
qed

theorem C3_precision_validation_witness:
  "fst (JoyCaption_init toy_lib ''toy/model'' ''cpu'' ''bfloat16'' Map.empty toy_world) =
      Inr \<lparr>model_id = ''toy/model'', device = ''cpu'', dtype = BFloat16,
           stats = \<lparr>inference_count = 0\<rparr>, tokenizer = toy_tokenizer, model = toy_model\<rparr>
   \<and> JoyCaption_init toy_lib ''toy/model'' ''cpu'' ''float64'' Map.empty toy_world =
        (Inl dtype_error, toy_world)"
  using C3_precision_validation [of "''bfloat16''" toy_lib "''toy/model''" "''cpu''" Map.empty toy_world]
        C3_precision_validation [of "''float64''" toy_lib "''toy/model''" "''cpu''" Map.empty toy_world]
  by (simp add: toy_lib_def)

section \<open>The registry\<close>

text \<open>
  C7. A registration that goes through returns the class it was given and stores it, so
  that resolving the identifier yields that class; it goes through whenever the
  identifier is new or the policy overwrites. For the adapter of this file, registered as
  on lines 10-15, the resolved constructor builds what the class builds. Resolving an
  identifier that is not in the registry fails with \<^verbatim>\<open>NotFoundError\<close>.
\<close>

theorem C7_registry_round_trip:
  "(register policy ident kind cap cls reg = Inr (cls', reg') \<longrightarrow>
      cls' = cls \<and> resolve reg' ident = Inr cls
      \<and> reg' ident = Some \<lparr>entry_identifier = ident, entry_backend_kind = kind,
                            entry_capability = cap, entry_constructor = cls\<rparr>)
   \<and> (policy = Overwrite \<or> reg ident = None \<longrightarrow>
        (\<exists>reg'. register policy ident kind cap cls reg = Inr (cls, reg')))
   \<and> (register_JoyCaption policy (JoyCaption_init l) jreg = Inr (jcls, jreg') \<longrightarrow>
        resolve jreg' ''fancyfeast/llama-joycaption-alpha-two-hf-llava'' = Inr (JoyCaption_init l)
        \<and> jcls mid dev dtype_name kw w = JoyCaption_init l mid dev dtype_name kw w)
   \<and> (reg ident = None \<longrightarrow> resolve reg ident = Inl (NotFoundError ident))"
  by (auto simp: register_def resolve_def register_JoyCaption_def split: if_splits)

theorem C7_registry_round_trip_witness:
  "register Reject ''m'' ''k'' IMAGE_TEXT_TO_TEXT (5::nat) Map.empty =
      Inr (5, [''m'' \<mapsto> \<lparr>entry_identifier = ''m'', entry_backend_kind = ''k'',
                            entry_capability = IMAGE_TEXT_TO_TEXT, entry_constructor = 5\<rparr>])
   \<and> resolve [''m'' \<mapsto> \<lparr>entry_identifier = ''m'', entry_backend_kind = ''k'',
                            entry_capability = IMAGE_TEXT_TO_TEXT, entry_constructor = 5::nat\<rparr>] ''m''
        = Inr 5
   \<and> resolve (Map.empty :: nat registry) ''m'' = Inl (NotFoundError ''m'')
   \<and> (\<exists>jreg'. register_JoyCaption Overwrite (JoyCaption_init toy_lib) Map.empty =
                   Inr (JoyCaption_init toy_lib, jreg')
         \<and> resolve jreg' ''fancyfeast/llama-joycaption-alpha-two-hf-llava'' =
             Inr (JoyCaption_init toy_lib))"
proof -
  let ?reg' = "[''m'' \<mapsto> \<lparr>entry_identifier = ''m'', entry_backend_kind = ''k'',
                            entry_capability = IMAGE_TEXT_TO_TEXT, entry_constructor = 5::nat\<rparr>]"
  have r: "register Reject ''m'' ''k'' IMAGE_TEXT_TO_TEXT (5::nat) Map.empty = Inr (5, ?reg')"
    by (simp add: register_def)
  note inst = C7_registry_round_trip
    [where policy = Reject and ident = "''m''" and kind = "''k''" and cap = IMAGE_TEXT_TO_TEXT
       and cls = "5::nat" and reg = Map.empty and cls' = 5 and reg' = ?reg']
  from inst [THEN conjunct1, THEN mp, OF r] have a: "resolve ?reg' ''m'' = Inr 5" by simp
  from inst [THEN conjunct2, THEN conjunct2, THEN conjunct2]
  have b: "resolve (Map.empty :: nat registry) ''m'' = Inl (NotFoundError ''m'')" by simp
  let ?jreg' = "[''fancyfeast/llama-joycaption-alpha-two-hf-llava'' \<mapsto>
                  \<lparr>entry_identifier = ''fancyfeast/llama-joycaption-alpha-two-hf-llava'',
                   entry_backend_kind = ''transformers'',
                   entry_capability = IMAGE_TEXT_TO_TEXT,
                   entry_constructor = JoyCaption_init toy_lib\<rparr>]"
  have jr: "register_JoyCaption Overwrite (JoyCaption_init toy_lib) Map.empty =
              Inr (JoyCaption_init toy_lib, ?jreg')"
    by (simp add: register_JoyCaption_def register_def)
  note jinst = C7_registry_round_trip
    [where policy = Overwrite and l = toy_lib and jreg = Map.empty
       and jcls = "JoyCaption_init toy_lib" and jreg' = ?jreg']
  from jinst [THEN conjunct2, THEN conjunct2, THEN conjunct1, THEN mp, OF jr]
  have "resolve ?jreg' ''fancyfeast/llama-joycaption-alpha-two-hf-llava'' =
          Inr (JoyCaption_init toy_lib)"
    by (rule conjunct1)
  with jr have c: "\<exists>jreg'. register_JoyCaption Overwrite (JoyCaption_init toy_lib) Map.empty =
                   Inr (JoyCaption_init toy_lib, jreg')
         \<and> resolve jreg' ''fancyfeast/llama-joycaption-alpha-two-hf-llava'' =
             Inr (JoyCaption_init toy_lib)"
    by blast
  from r a b c show ?thesis by blast
qed

section \<open>Batched preprocessing\<close>

text \<open>
  The loop over the pairs returns exactly when the image pipeline and the tokenizer
  return on every pair; it then holds one image and one expanded token sequence per
  pair, in the order of the pairs.
\<close>

lemma preprocess_pairs_Inr:
  "preprocess_pairs l self pairs imgs idsl = Inr (imgs', idsl') \<Longrightarrow>
   \<exists>ims rs. imgs' = imgs @ ims \<and> idsl' = idsl @ rs \<and>
     length ims = length pairs \<and> length rs = length pairs \<and>
     (\<forall>i < length pairs.
        load_image l (fst (pairs ! i)) (dtype self) = Inr (ims ! i) \<and>
        (\<exists>toks. convo_tokens (tokenizer self) (Some (snd (pairs ! i))) = Inr toks \<and>
                rs ! i = repeat_image_tokens (config (model self)) [] toks))"
proof (induction pairs arbitrary: imgs idsl)
  case Nil
  then show ?case by simp
next
  case (Cons pr pairs)
  obtain path prompt where pr: "pr = (path, prompt)" by (cases pr)
  from Cons.prems pr obtain im toks where
    im: "load_image l path (dtype self) = Inr im" and
    toks: "convo_tokens (tokenizer self) (Some prompt) = Inr toks" and
    rest: "preprocess_pairs l self pairs (imgs @ [im])
             (idsl @ [repeat_image_tokens (config (model self)) [] toks]) = Inr (imgs', idsl')"
    by (auto split: sum.splits)
  from Cons.IH[OF rest] obtain ims rs where
    a: "imgs' = (imgs @ [im]) @ ims"
       "idsl' = (idsl @ [repeat_image_tokens (config (model self)) [] toks]) @ rs"
       "length ims = length pairs" "length rs = length pairs" and
    b: "\<forall>i < length pairs.
        load_image l (fst (pairs ! i)) (dtype self) = Inr (ims ! i) \<and>
        (\<exists>toks. convo_tokens (tokenizer self) (Some (snd (pairs ! i))) = Inr toks \<and>
                rs ! i = repeat_image_tokens (config (model self)) [] toks)"
    by blast
  have "\<forall>i < length (pr # pairs).
        load_image l (fst ((pr # pairs) ! i)) (dtype self) = Inr ((im # ims) ! i) \<and>
        (\<exists>t. convo_tokens (tokenizer self) (Some (snd ((pr # pairs) ! i))) = Inr t \<and>
             (repeat_image_tokens (config (model self)) [] toks # rs) ! i =
                repeat_image_tokens (config (model self)) [] t)"
  proof (intro allI impI)
    fix i assume "i < length (pr # pairs)"
    then show "load_image l (fst ((pr # pairs) ! i)) (dtype self) = Inr ((im # ims) ! i) \<and>
        (\<exists>t. convo_tokens (tokenizer self) (Some (snd ((pr # pairs) ! i))) = Inr t \<and>
             (repeat_image_tokens (config (model self)) [] toks # rs) ! i =
                repeat_image_tokens (config (model self)) [] t)"
      using b im toks pr by (cases i) simp_all
  qed
  with a show ?case
    by (intro exI[of _ "im # ims"]
              exI[of _ "repeat_image_tokens (config (model self)) [] toks # rs"]) simp
qed

lemma preprocess_pairs_total:
  "\<forall>pr \<in> set pairs. (\<exists>im. load_image l (fst pr) (dtype self) = Inr im) \<and>
                      (\<exists>toks. convo_tokens (tokenizer self) (Some (snd pr)) = Inr toks) \<Longrightarrow>
   \<exists>res. preprocess_pairs l self pairs imgs idsl = Inr res"
proof (induction pairs arbitrary: imgs idsl)
  case Nil
  then show ?case by simp
next
  case (Cons pr pairs)
  obtain path prompt where pr: "pr = (path, prompt)" by (cases pr)
  from Cons.prems pr obtain im toks where
    "load_image l path (dtype self) = Inr im"
    "convo_tokens (tokenizer self) (Some prompt) = Inr toks"
    by auto
  moreover have "\<forall>pr \<in> set pairs. (\<exists>im. load_image l (fst pr) (dtype self) = Inr im) \<and>
                      (\<exists>toks. convo_tokens (tokenizer self) (Some (snd pr)) = Inr toks)"
    using Cons.prems by simp
  ultimately show ?case using Cons.IH pr by simp
qed

text \<open>Line 156 computes the greatest length, and fails on no sequences.\<close>

lemma fold_max_length:
  "fold (\<lambda>x m. max m (length x)) rest a = Max (set (a # map length rest))"
proof -
  have "fold (\<lambda>x m. max m (length x)) rest a = fold max (map length rest) a"
    by (induction rest arbitrary: a) (simp_all add: max.commute)
  then show ?thesis by (simp only: Max.set_eq_fold)
qed

lemma max_length_of_eq:
  "max_length_of rows =
     (if rows = [] then Inl (ValueError ''max() iterable argument is empty'')
      else Inr (Max (set (map length rows))))"
  by (cases rows) (simp_all add: max_length_of_def fold_max_length)

text \<open>
  The padding loop, started as \<^verbatim>\<open>preprocess_batch\<close> starts it, pads every sequence on
  the right and builds its mask.
\<close>

lemma pad_rows_enumerate:
  "length pre = k \<Longrightarrow> \<forall>r \<in> set rs. length r \<le> W \<Longrightarrow>
   pad_rows W (enumerate k rs) (pre @ replicate (length rs) (replicate W 0)) ms
     = (pre @ map (pad_right W) rs, ms @ map (mask_right W) rs)"
proof (induction rs arbitrary: k pre ms)
  case Nil
  then show ?case by simp
next
  case (Cons r rs)
  have upd: "(pre @ replicate (length (r # rs)) (replicate W 0))
               [k := r @ drop (length r) ((pre @ replicate (length (r # rs)) (replicate W 0)) ! k)]
             = (pre @ [pad_right W r]) @ replicate (length rs) (replicate W 0)"
    unfolding Cons.prems(1)[symmetric] by (simp add: pad_right_def)
  have m: "take (length r) (replicate W (1::int)) @ replicate (W - length r) 0 = mask_right W r"
    using Cons.prems(2) by (simp add: mask_right_def min_def)
  have "pad_rows W (enumerate k (r # rs)) (pre @ replicate (length (r # rs)) (replicate W 0)) ms
        = pad_rows W (enumerate (Suc k) rs)
            ((pre @ [pad_right W r]) @ replicate (length rs) (replicate W 0))
            (ms @ [mask_right W r])"
    by (simp only: enumerate_simps pad_rows.simps upd m)
  also have "\<dots> = ((pre @ [pad_right W r]) @ map (pad_right W) rs,
                   (ms @ [mask_right W r]) @ map (mask_right W) rs)"
    using Cons.prems by (intro Cons.IH) simp_all
  finally show ?case by simp
qed

lemma preprocess_batch_eq:
  assumes "preprocess_pairs l self (zip images prompts) [] [] = Inr (imgs, rows)"
  shows "preprocess_batch l self images prompts =
     (if rows = [] then Inl (ValueError ''max() iterable argument is empty'')
      else Inr (imgs, map (pad_right (Max (set (map length rows)))) rows,
                      map (mask_right (Max (set (map length rows)))) rows))"
proof (cases "rows = []")
  case True
  then show ?thesis using assms by (simp add: preprocess_batch_def max_length_of_eq)
next
  case False
  let ?W = "Max (set (map length rows))"
  have le: "\<forall>r \<in> set rows. length r \<le> ?W" by simp
  have "pad_rows ?W (enumerate 0 rows) ([] @ replicate (length rows) (replicate ?W 0)) []
          = ([] @ map (pad_right ?W) rows, [] @ map (mask_right ?W) rows)"
    by (rule pad_rows_enumerate) (simp_all add: le)
  then show ?thesis using assms False by (simp add: preprocess_batch_def max_length_of_eq)
qed

text \<open>
  On a non-empty batch whose images load and whose prompts tokenize,
  \<^verbatim>\<open>preprocess_batch\<close> returns: one image per pair, and the expanded sequences
  padded to their greatest length.
\<close>

lemma preprocess_batch_returns:
  assumes "images \<noteq> []" and "prompts \<noteq> []"
    and ext: "\<forall>i < min (length images) (length prompts).
           (\<exists>im. load_image l (images ! i) (dtype self) = Inr im) \<and>
           (\<exists>toks. convo_tokens (tokenizer self) (Some (prompts ! i)) = Inr toks)"
  shows "\<exists>imgs rows.
     preprocess_batch l self images prompts =
       Inr (imgs, map (pad_right (Max (set (map length rows)))) rows,
                  map (mask_right (Max (set (map length rows)))) rows)
     \<and> length imgs = min (length images) (length prompts)
     \<and> length rows = min (length images) (length prompts)
     \<and> (\<forall>i < length rows. \<exists>toks.
            convo_tokens (tokenizer self) (Some (prompts ! i)) = Inr toks \<and>
            rows ! i = repeat_image_tokens (config (model self)) [] toks)"
proof -
  let ?pairs = "zip images prompts"
  have "\<forall>pr \<in> set ?pairs. (\<exists>im. load_image l (fst pr) (dtype self) = Inr im) \<and>
                      (\<exists>toks. convo_tokens (tokenizer self) (Some (snd pr)) = Inr toks)"
    using ext by (auto simp: in_set_zip)
  from preprocess_pairs_total[OF this, of "[]" "[]"] obtain imgs rows where
    run: "preprocess_pairs l self ?pairs [] [] = Inr (imgs, rows)" by auto
  from preprocess_pairs_Inr[OF run] have
    len: "length imgs = length ?pairs" "length rows = length ?pairs" and
    row: "\<forall>i < length ?pairs. \<exists>toks.
            convo_tokens (tokenizer self) (Some (snd (?pairs ! i))) = Inr toks \<and>
            rows ! i = repeat_image_tokens (config (model self)) [] toks"
    by auto
  from len assms(1,2) have ne: "rows \<noteq> []" by (cases images; cases prompts) auto
  have "\<forall>i < length rows. \<exists>toks.
            convo_tokens (tokenizer self) (Some (prompts ! i)) = Inr toks \<and>
            rows ! i = repeat_image_tokens (config (model self)) [] toks"
    using row len by auto
  then show ?thesis using preprocess_batch_eq[OF run] ne len by auto
qed

lemmas toy_defs = toy_lib_def toy_adapter_def toy_tokenizer_def toy_model_def toy_world_def
  convo_tokens_def conversation_def

text \<open>
  C2. For a non-empty batch (both lists non-empty, the image pipeline and the tokenizer
  returning on every pair), \<^verbatim>\<open>preprocess_batch\<close> returns a token-id matrix and a mask
  with one row per pair, in input order. With \<open>rows ! i\<close> the expanded token sequence of
  pair \<open>i\<close> and \<open>L\<^sub>i\<close> its length, every row of both matrices has the width
  \<open>max (L\<^sub>1 .. L\<^sub>k)\<close>; row \<open>i\<close> of the ids is \<open>rows ! i\<close> followed by zeros, and row \<open>i\<close>
  of the mask is \<open>L\<^sub>i\<close> ones followed by zeros.
\<close>

theorem C2_batched_padding:
  assumes "images \<noteq> []" and "prompts \<noteq> []"
    and "\<forall>i < min (length images) (length prompts).
           (\<exists>im. load_image l (images ! i) (dtype self) = Inr im) \<and>
           (\<exists>toks. convo_tokens (tokenizer self) (Some (prompts ! i)) = Inr toks)"
  shows "\<exists>imgs padded masks rows.
     preprocess_batch l self images prompts = Inr (imgs, padded, masks)
     \<and> length rows = min (length images) (length prompts)
     \<and> (\<forall>i < length rows. \<exists>toks.
            convo_tokens (tokenizer self) (Some (prompts ! i)) = Inr toks \<and>
            rows ! i = repeat_image_tokens (config (model self)) [] toks)
     \<and> length padded = length rows \<and> length masks = length rows
     \<and> (\<forall>i < length rows.
            length (padded ! i) = Max (set (map length rows))
          \<and> length (masks ! i) = Max (set (map length rows))
          \<and> padded ! i =
              rows ! i @ replicate (Max (set (map length rows)) - length (rows ! i)) 0
          \<and> masks ! i =
              replicate (length (rows ! i)) 1 @
              replicate (Max (set (map length rows)) - length (rows ! i)) 0)"
proof -
  from preprocess_batch_returns[OF assms] obtain imgs rows where
    run: "preprocess_batch l self images prompts =
       Inr (imgs, map (pad_right (Max (set (map length rows)))) rows,
                  map (mask_right (Max (set (map length rows)))) rows)" and
    len: "length rows = min (length images) (length prompts)" and
    row: "\<forall>i < length rows. \<exists>toks.
            convo_tokens (tokenizer self) (Some (prompts ! i)) = Inr toks \<and>
            rows ! i = repeat_image_tokens (config (model self)) [] toks"
    by blast
  let ?W = "Max (set (map length rows))"
  have le: "\<And>i. i < length rows \<Longrightarrow> length (rows ! i) \<le> ?W" by simp
  have cols: "\<forall>i < length rows.
            length (map (pad_right ?W) rows ! i) = ?W
          \<and> length (map (mask_right ?W) rows ! i) = ?W
          \<and> map (pad_right ?W) rows ! i = rows ! i @ replicate (?W - length (rows ! i)) 0
          \<and> map (mask_right ?W) rows ! i =
              replicate (length (rows ! i)) 1 @ replicate (?W - length (rows ! i)) 0"
    using le by (simp add: pad_right_def mask_right_def)
  show ?thesis
    using run len row cols
    by (intro exI[of _ imgs] exI[of _ "map (pad_right ?W) rows"]
              exI[of _ "map (mask_right ?W) rows"] exI[of _ rows]) simp
qed

theorem C2_batched_padding_witness:
  "preprocess_batch toy_lib toy_adapter [''cat.jpg'', ''dog.jpg''] [''a'', ''aba''] =
     Inr ([7, 7], [[9, 9, 9, 1, 0, 0], [9, 9, 9, 1, 2, 1]],
                  [[1, 1, 1, 1, 0, 0], [1, 1, 1, 1, 1, 1]])"
proof -
  have ext: "\<forall>i < min (length [''cat.jpg'', ''dog.jpg'']) (length [''a'', ''aba'']).
           (\<exists>im. load_image toy_lib ([''cat.jpg'', ''dog.jpg''] ! i) (dtype toy_adapter) = Inr im) \<and>
           (\<exists>toks. convo_tokens (tokenizer toy_adapter) (Some ([''a'', ''aba''] ! i)) = Inr toks)"
    by (simp add: toy_defs less_Suc_eq nth_Cons')
  from C2_batched_padding [OF _ _ ext]
  have "\<exists>imgs padded masks.
          preprocess_batch toy_lib toy_adapter [''cat.jpg'', ''dog.jpg''] [''a'', ''aba''] =
            Inr (imgs, padded, masks)"
    by blast
  moreover have "preprocess_batch toy_lib toy_adapter [''cat.jpg'', ''dog.jpg''] [''a'', ''aba''] =
     Inr ([7, 7], [[9, 9, 9, 1, 0, 0], [9, 9, 9, 1, 2, 1]],
                  [[1, 1, 1, 1, 0, 0], [1, 1, 1, 1, 1, 1]])"
    by (simp add: preprocess_batch_def max_length_of_def toy_defs eval_nat_numeral)
  ultimately show ?thesis by simp
qed

section \<open>The generation call\<close>

text \<open>The options the call receives: the caller's, with the default filled in.\<close>

lemma default_max_new_tokens_lookup:
  "default_max_new_tokens kw ''max_new_tokens'' =
     (case kw ''max_new_tokens'' of None \<Rightarrow> Some (PyInt 300) | Some v \<Rightarrow> Some v)"
  by (auto simp: default_max_new_tokens_def)

lemma default_max_new_tokens_other:
  "k \<noteq> ''max_new_tokens'' \<Longrightarrow> default_max_new_tokens kw k = kw k"
  by (simp add: default_max_new_tokens_def)

lemma repeats_keyword_default:
  "repeats_keyword (default_max_new_tokens kw) = repeats_keyword kw"
  by (simp add: repeats_keyword_def explicit_keywords_def default_max_new_tokens_other)

text \<open>
  The four ways through \<^verbatim>\<open>infer\<close>: the autocast scope raises; preprocessing raises;
  the caller repeats a keyword the call names; or the model is called, once, and what it
  returns decides the rest.
\<close>

lemma infer_scope_raises:
  "autocast l (device self) (dtype self) = Some e \<Longrightarrow>
   infer l self image_path prompt kw w = (Inl e, self, w)"
  by (simp add: infer_def)

lemma infer_preprocess_raises:
  "autocast l (device self) (dtype self) = None \<Longrightarrow>
   preprocess l self image_path prompt = Inl e \<Longrightarrow>
   infer l self image_path prompt kw w = (Inl e, self, w)"
  by (simp add: infer_def)

lemma infer_repeated_keyword:
  "autocast l (device self) (dtype self) = None \<Longrightarrow>
   preprocess l self image_path prompt = Inr (img, ids, am) \<Longrightarrow>
   repeats_keyword kw \<Longrightarrow>
   infer l self image_path prompt kw w =
     (Inl (TypeError ''got multiple values for keyword argument''), self, w)"
  by (simp add: infer_def call_generate_def repeats_keyword_default)

lemma infer_generates:
  assumes "autocast l (device self) (dtype self) = None"
    and "preprocess l self image_path prompt = Inr (img, ids, am)"
    and "\<not> repeats_keyword kw"
    and "c = \<lparr>input_ids = ids, pixel_values = img, attention_mask = am,
              do_sample = True, suppress_tokens = None, use_cache = True,
              options = default_max_new_tokens kw\<rparr>"
    and "w' = w\<lparr>generate_calls := generate_calls w @ [c]\<rparr>"
  shows "infer l self image_path prompt kw w =
     (case generate (model self) c of
        Inl e \<Rightarrow> (Inl e, self, w')
      | Inr out \<Rightarrow>
          (case out of
             [] \<Rightarrow> (Inl (IndexError ''index 0 is out of bounds''), self, w')
           | generate_ids # _ \<Rightarrow>
               (case decode (tokenizer self) (drop (shape1 ids) generate_ids) of
                  Inl e \<Rightarrow> (Inl e, self, w')
                | Inr caption \<Rightarrow>
                    (Inr (py_strip caption),
                     self\<lparr>stats := update_inference_count 1 (stats self)\<rparr>, w'))))"
  using assms
  by (simp add: infer_def call_generate_def repeats_keyword_default Let_def
           split: sum.splits list.splits)

text \<open>The same four ways through \<^verbatim>\<open>infer_batch\<close>.\<close>

lemma infer_batch_scope_raises:
  "autocast l (device self) (dtype self) = Some e \<Longrightarrow>
   infer_batch l self images prompts kw w = (Inl e, self, w)"
  by (simp add: infer_batch_def)

lemma infer_batch_preprocess_raises:
  "autocast l (device self) (dtype self) = None \<Longrightarrow>
   preprocess_batch l self images prompts = Inl e \<Longrightarrow>
   infer_batch l self images prompts kw w = (Inl e, self, w)"
  by (simp add: infer_batch_def)

lemma infer_batch_repeated_keyword:
  "autocast l (device self) (dtype self) = None \<Longrightarrow>
   preprocess_batch l self images prompts = Inr (imgs, ids, am) \<Longrightarrow>
   repeats_keyword kw \<Longrightarrow>
   infer_batch l self images prompts kw w =
     (Inl (TypeError ''got multiple values for keyword argument''), self, w)"
  by (simp add: infer_batch_def call_generate_def repeats_keyword_default)

lemma infer_batch_generates:
  assumes "autocast l (device self) (dtype self) = None"
    and "preprocess_batch l self images prompts = Inr (imgs, ids, am)"
    and "\<not> repeats_keyword kw"
    and "c = \<lparr>input_ids = ids, pixel_values = imgs, attention_mask = am,
              do_sample = True, suppress_tokens = None, use_cache = True,
              options = default_max_new_tokens kw\<rparr>"
    and "w' = w\<lparr>generate_calls := generate_calls w @ [c]\<rparr>"
  shows "infer_batch l self images prompts kw w =
     (case generate (model self) c of
        Inl e \<Rightarrow> (Inl e, self, w')
      | Inr generate_ids \<Rightarrow>
          (case decode_rows (tokenizer self) (shape1 ids) generate_ids [] of
             Inl e \<Rightarrow> (Inl e, self, w')
           | Inr captions \<Rightarrow>
               (Inr captions,
                self\<lparr>stats := update_inference_count (length imgs) (stats self)\<rparr>, w')))"
  using assms
  by (simp add: infer_batch_def call_generate_def repeats_keyword_default Let_def
           split: sum.splits)

lemmas run_defs = infer_def infer_batch_def preprocess_def preprocess_batch_def
  max_length_of_def call_generate_def repeats_keyword_def explicit_keywords_def
  default_max_new_tokens_def shape1_def ones_like_def update_inference_count_def
  py_strip_def py_isspace_def py_whitespace_def

text \<open>Runs of the small instance.\<close>

lemma toy_scope: "autocast toy_lib (device toy_adapter) (dtype toy_adapter) = None"
  by (simp add: toy_defs)

lemma toy_preprocess_run:
  "preprocess toy_lib toy_adapter ''cat.jpg'' (Some ''ab'') =
      Inr ([7], [[9, 9, 9, 1, 2]], [[1, 1, 1, 1, 1]])"
  by (simp add: run_defs toy_defs eval_nat_numeral)

lemma toy_preprocess_batch_run:
  "preprocess_batch toy_lib toy_adapter [''cat.jpg'', ''dog.jpg''] [''a'', ''aba''] =
     Inr ([7, 7], [[9, 9, 9, 1, 0, 0], [9, 9, 9, 1, 2, 1]],
                  [[1, 1, 1, 1, 0, 0], [1, 1, 1, 1, 1, 1]])"
  by (simp add: run_defs toy_defs eval_nat_numeral)

lemma toy_infer_run:
  "fst (infer toy_lib toy_adapter ''cat.jpg'' (Some ''ab'') Map.empty toy_world) = Inr ''ab''"
  by (simp add: run_defs toy_defs eval_nat_numeral)

lemma toy_infer_batch_run:
  "fst (infer_batch toy_lib toy_adapter [''cat.jpg'', ''dog.jpg''] [''a'', ''aba'']
          Map.empty toy_world) = Inr [''ab'', ''ab'']"
  by (simp add: run_defs toy_defs eval_nat_numeral)

text \<open>
  C5. When \<^verbatim>\<open>infer\<close> (and likewise \<^verbatim>\<open>infer_batch\<close>) gets as far as the generation
  call, that is the autocast scope is entered, preprocessing returns and the caller
  repeats none of the six keywords the call names itself, the model's
  \<^verbatim>\<open>generate\<close> is called exactly once, on a record \<open>c\<close> that holds the preprocessed
  ids, pixels and mask, \<^verbatim>\<open>do_sample=True\<close>, \<^verbatim>\<open>suppress_tokens=None\<close>,
  \<^verbatim>\<open>use_cache=True\<close>, \<^verbatim>\<open>max_new_tokens\<close> 300 when the caller gave none and the
  caller's value otherwise, and every other option of the caller unchanged; and the
  outcome of the call is computed from what \<^verbatim>\<open>generate\<close> returns on \<open>c\<close>. When it
  does not get that far, \<^verbatim>\<open>generate\<close> is not called and an exception comes out.
\<close>

theorem C5_generation_options:
  "(autocast l (device self) (dtype self) = None \<longrightarrow>
    preprocess l self image_path prompt = Inr (img, ids, attn_mask) \<longrightarrow>
    \<not> repeats_keyword kw \<longrightarrow>
      (\<exists>c. input_ids c = ids \<and> pixel_values c = img \<and> attention_mask c = attn_mask
         \<and> do_sample c \<and> suppress_tokens c = None \<and> use_cache c
         \<and> options c ''max_new_tokens'' =
             (case kw ''max_new_tokens'' of None \<Rightarrow> Some (PyInt 300) | Some v \<Rightarrow> Some v)
         \<and> (\<forall>k. k \<noteq> ''max_new_tokens'' \<longrightarrow> options c k = kw k)
         \<and> generate_calls (snd (snd (infer l self image_path prompt kw w))) =
             generate_calls w @ [c]
         \<and> fst (infer l self image_path prompt kw w) =
             (case generate (model self) c of
                Inl e \<Rightarrow> Inl e
              | Inr out \<Rightarrow>
                  (case out of
                     [] \<Rightarrow> Inl (IndexError ''index 0 is out of bounds'')
                   | generate_ids # _ \<Rightarrow>
                       (case decode (tokenizer self) (drop (shape1 ids) generate_ids) of
                          Inl e \<Rightarrow> Inl e
                        | Inr caption \<Rightarrow> Inr (py_strip caption))))))
 \<and> (autocast l (device self) (dtype self) = None \<longrightarrow>
    preprocess_batch l self images prompts = Inr (imgs, idsb, maskb) \<longrightarrow>
    \<not> repeats_keyword kw \<longrightarrow>
      (\<exists>c. input_ids c = idsb \<and> pixel_values c = imgs \<and> attention_mask c = maskb
         \<and> do_sample c \<and> suppress_tokens c = None \<and> use_cache c
         \<and> options c ''max_new_tokens'' =
             (case kw ''max_new_tokens'' of None \<Rightarrow> Some (PyInt 300) | Some v \<Rightarrow> Some v)
         \<and> (\<forall>k. k \<noteq> ''max_new_tokens'' \<longrightarrow> options c k = kw k)
         \<and> generate_calls (snd (snd (infer_batch l self images prompts kw w))) =
             generate_calls w @ [c]
         \<and> fst (infer_batch l self images prompts kw w) =
             (case generate (model self) c of
                Inl e \<Rightarrow> Inl e
              | Inr generate_ids \<Rightarrow>
                  decode_rows (tokenizer self) (shape1 idsb) generate_ids [])))
 \<and> (autocast l (device self) (dtype self) \<noteq> None
      \<or> (\<exists>e. preprocess l self image_path prompt = Inl e) \<or> repeats_keyword kw \<longrightarrow>
      generate_calls (snd (snd (infer l self image_path prompt kw w))) = generate_calls w
      \<and> (\<exists>e. fst (infer l self image_path prompt kw w) = Inl e))
 \<and> (autocast l (device self) (dtype self) \<noteq> None
      \<or> (\<exists>e. preprocess_batch l self images prompts = Inl e) \<or> repeats_keyword kw \<longrightarrow>
      generate_calls (snd (snd (infer_batch l self images prompts kw w))) = generate_calls w
      \<and> (\<exists>e. fst (infer_batch l self images prompts kw w) = Inl e))"
proof (intro conjI impI)
  assume a: "autocast l (device self) (dtype self) = None"
    "preprocess l self image_path prompt = Inr (img, ids, attn_mask)"
    "\<not> repeats_keyword kw"
  define c where "c = \<lparr>input_ids = ids, pixel_values = img, attention_mask = attn_mask,
              do_sample = True, suppress_tokens = None, use_cache = True,
              options = default_max_new_tokens kw\<rparr>"
  define w' where "w' = w\<lparr>generate_calls := generate_calls w @ [c]\<rparr>"
  note run = infer_generates [OF a c_def w'_def]
  have log: "generate_calls (snd (snd (infer l self image_path prompt kw w))) =
               generate_calls w @ [c]"
    unfolding run by (simp add: w'_def split: sum.splits list.splits)
  have res: "fst (infer l self image_path prompt kw w) =
             (case generate (model self) c of
                Inl e \<Rightarrow> Inl e
              | Inr out \<Rightarrow>
                  (case out of
                     [] \<Rightarrow> Inl (IndexError ''index 0 is out of bounds'')
                   | generate_ids # _ \<Rightarrow>
                       (case decode (tokenizer self) (drop (shape1 ids) generate_ids) of
                          Inl e \<Rightarrow> Inl e
                        | Inr caption \<Rightarrow> Inr (py_strip caption))))"
    unfolding run by (simp split: sum.splits list.splits)
  have fields: "input_ids c = ids" "pixel_values c = img" "attention_mask c = attn_mask"
    "do_sample c" "suppress_tokens c = None" "use_cache c"
    "options c ''max_new_tokens'' =
       (case kw ''max_new_tokens'' of None \<Rightarrow> Some (PyInt 300) | Some v \<Rightarrow> Some v)"
    "\<forall>k. k \<noteq> ''max_new_tokens'' \<longrightarrow> options c k = kw k"
    by (simp_all add: c_def default_max_new_tokens_lookup default_max_new_tokens_other)
  from fields log res
  show "\<exists>c. input_ids c = ids \<and> pixel_values c = img \<and> attention_mask c = attn_mask
         \<and> do_sample c \<and> suppress_tokens c = None \<and> use_cache c
         \<and> options c ''max_new_tokens'' =
             (case kw ''max_new_tokens'' of None \<Rightarrow> Some (PyInt 300) | Some v \<Rightarrow> Some v)
         \<and> (\<forall>k. k \<noteq> ''max_new_tokens'' \<longrightarrow> options c k = kw k)
         \<and> generate_calls (snd (snd (infer l self image_path prompt kw w))) =
             generate_calls w @ [c]
         \<and> fst (infer l self image_path prompt kw w) =
             (case generate (model self) c of
                Inl e \<Rightarrow> Inl e
              | Inr out \<Rightarrow>
                  (case out of
                     [] \<Rightarrow> Inl (IndexError ''index 0 is out of bounds'')
                   | generate_ids # _ \<Rightarrow>
                       (case decode (tokenizer self) (drop (shape1 ids) generate_ids) of
                          Inl e \<Rightarrow> Inl e
                        | Inr caption \<Rightarrow> Inr (py_strip caption))))"
    by (intro exI[of _ c] conjI)
next
  assume a: "autocast l (device self) (dtype self) = None"
    "preprocess_batch l self images prompts = Inr (imgs, idsb, maskb)"
    "\<not> repeats_keyword kw"
  define c where "c = \<lparr>input_ids = idsb, pixel_values = imgs, attention_mask = maskb,
              do_sample = True, suppress_tokens = None, use_cache = True,
              options = default_max_new_tokens kw\<rparr>"
  define w' where "w' = w\<lparr>generate_calls := generate_calls w @ [c]\<rparr>"
  note run = infer_batch_generates [OF a c_def w'_def]
  have log: "generate_calls (snd (snd (infer_batch l self images prompts kw w))) =
               generate_calls w @ [c]"
    unfolding run by (simp add: w'_def split: sum.splits)
  have res: "fst (infer_batch l self images prompts kw w) =
             (case generate (model self) c of
                Inl e \<Rightarrow> Inl e
              | Inr generate_ids \<Rightarrow>
                  decode_rows (tokenizer self) (shape1 idsb) generate_ids [])"
    unfolding run by (simp split: sum.splits)
  have fields: "input_ids c = idsb" "pixel_values c = imgs" "attention_mask c = maskb"
    "do_sample c" "suppress_tokens c = None" "use_cache c"
    "options c ''max_new_tokens'' =
       (case kw ''max_new_tokens'' of None \<Rightarrow> Some (PyInt 300) | Some v \<Rightarrow> Some v)"
    "\<forall>k. k \<noteq> ''max_new_tokens'' \<longrightarrow> options c k = kw k"
    by (simp_all add: c_def default_max_new_tokens_lookup default_max_new_tokens_other)
  from fields log res
  show "\<exists>c. input_ids c = idsb \<and> pixel_values c = imgs \<and> attention_mask c = maskb
         \<and> do_sample c \<and> suppress_tokens c = None \<and> use_cache c
         \<and> options c ''max_new_tokens'' =
             (case kw ''max_new_tokens'' of None \<Rightarrow> Some (PyInt 300) | Some v \<Rightarrow> Some v)
         \<and> (\<forall>k. k \<noteq> ''max_new_tokens'' \<longrightarrow> options c k = kw k)
         \<and> generate_calls (snd (snd (infer_batch l self images prompts kw w))) =
             generate_calls w @ [c]
         \<and> fst (infer_batch l self images prompts kw w) =
             (case generate (model self) c of
                Inl e \<Rightarrow> Inl e
              | Inr generate_ids \<Rightarrow>
                  decode_rows (tokenizer self) (shape1 idsb) generate_ids [])"
    by (intro exI[of _ c] conjI)
next
  assume no: "autocast l (device self) (dtype self) \<noteq> None
      \<or> (\<exists>e. preprocess l self image_path prompt = Inl e) \<or> repeats_keyword kw"
  have "\<exists>e. infer l self image_path prompt kw w = (Inl e, self, w)"
  proof (cases "autocast l (device self) (dtype self)")
    case (Some e)
    then show ?thesis by (auto simp: infer_scope_raises)
  next
    case None
    show ?thesis
    proof (cases "preprocess l self image_path prompt")
      case (Inl e)
      with None show ?thesis by (auto simp: infer_preprocess_raises)
    next
      case (Inr pre)
      obtain img ids am where "pre = (img, ids, am)" by (cases pre)
      with Inr None no show ?thesis by (auto simp: infer_repeated_keyword)
    qed
  qed
  then show "generate_calls (snd (snd (infer l self image_path prompt kw w))) = generate_calls w"
    "\<exists>e. fst (infer l self image_path prompt kw w) = Inl e"
    by auto
next
  assume no: "autocast l (device self) (dtype self) \<noteq> None
      \<or> (\<exists>e. preprocess_batch l self images prompts = Inl e) \<or> repeats_keyword kw"
  have "\<exists>e. infer_batch l self images prompts kw w = (Inl e, self, w)"
  proof (cases "autocast l (device self) (dtype self)")
    case (Some e)
    then show ?thesis by (auto simp: infer_batch_scope_raises)
  next
    case None
    show ?thesis
    proof (cases "preprocess_batch l self images prompts")
      case (Inl e)
      with None show ?thesis by (auto simp: infer_batch_preprocess_raises)
    next
      case (Inr pre)
      obtain imgs ids am where "pre = (imgs, ids, am)" by (cases pre)
      with Inr None no show ?thesis by (auto simp: infer_batch_repeated_keyword)
    qed
  qed
  then show "generate_calls (snd (snd (infer_batch l self images prompts kw w))) = generate_calls w"
    "\<exists>e. fst (infer_batch l self images prompts kw w) = Inl e"
    by auto
qed

theorem C5_generation_options_witness:
  "fst (infer toy_lib toy_adapter ''cat.jpg'' (Some ''ab'') Map.empty toy_world) = Inr ''ab''
 \<and> map (\<lambda>c. (input_ids c, do_sample c, suppress_tokens c, use_cache c,
              options c ''max_new_tokens''))
     (generate_calls (snd (snd
        (infer toy_lib toy_adapter ''cat.jpg'' (Some ''ab'') Map.empty toy_world))))
     = [([[9, 9, 9, 1, 2]], True, None, True, Some (PyInt 300))]
 \<and> fst (infer_batch toy_lib toy_adapter [''cat.jpg'', ''dog.jpg''] [''a'', ''aba'']
          [''max_new_tokens'' \<mapsto> PyInt 5] toy_world) = Inr [''ab'', ''ab'']
 \<and> map (\<lambda>c. (input_ids c, do_sample c, suppress_tokens c, use_cache c,
              options c ''max_new_tokens''))
     (generate_calls (snd (snd
        (infer_batch toy_lib toy_adapter [''cat.jpg'', ''dog.jpg''] [''a'', ''aba'']
           [''max_new_tokens'' \<mapsto> PyInt 5] toy_world))))
     = [([[9, 9, 9, 1, 0, 0], [9, 9, 9, 1, 2, 1]], True, None, True, Some (PyInt 5))]
 \<and> fst (infer toy_lib toy_adapter ''cat.jpg'' (Some ''ab'')
          [''max_new_tokens'' \<mapsto> PyInt (- 1)] toy_world) =
      Inl (ValueError ''max_new_tokens must be greater than 0'')
 \<and> generate_calls (snd (snd
        (infer toy_lib toy_adapter ''cat.jpg'' (Some ''ab'')
           [''do_sample'' \<mapsto> PyBool False] toy_world))) = []"
proof -
  have nk: "\<not> repeats_keyword Map.empty"
    "\<not> repeats_keyword [''max_new_tokens'' \<mapsto> PyInt 5]"
    "\<not> repeats_keyword [''max_new_tokens'' \<mapsto> PyInt (- 1)]"
    by (simp_all add: repeats_keyword_def explicit_keywords_def)
  have rk: "repeats_keyword [''do_sample'' \<mapsto> PyBool False]"
    by (simp add: repeats_keyword_def explicit_keywords_def)
  let ?one = "infer toy_lib toy_adapter ''cat.jpg'' (Some ''ab'') Map.empty toy_world"
  from C5_generation_options
         [where l = toy_lib and self = toy_adapter and image_path = "''cat.jpg''"
            and prompt = "Some ''ab''" and kw = Map.empty and w = toy_world,
          THEN conjunct1, THEN mp, THEN mp, THEN mp, OF toy_scope toy_preprocess_run nk(1)]
  obtain c where c: "input_ids c = [[9, 9, 9, 1, 2]]"
      "do_sample c" "suppress_tokens c = None" "use_cache c"
      "options c ''max_new_tokens'' = Some (PyInt 300)"
      "generate_calls (snd (snd ?one)) = generate_calls toy_world @ [c]"
      "fst ?one =
         (case generate (model toy_adapter) c of
            Inl e \<Rightarrow> Inl e
          | Inr out \<Rightarrow>
              (case out of
                 [] \<Rightarrow> Inl (IndexError ''index 0 is out of bounds'')
               | generate_ids # _ \<Rightarrow>
                   (case decode (tokenizer toy_adapter)
                           (drop (shape1 [[9, 9, 9, 1, 2]]) generate_ids) of
                      Inl e \<Rightarrow> Inl e
                    | Inr caption \<Rightarrow> Inr (py_strip caption))))"
    by auto
  have g1: "generate (model toy_adapter) c = Inr [[9, 9, 9, 1, 2, 1, 2]]"
    using c(1,5) by (simp add: toy_defs)
  have a: "fst ?one = Inr ''ab''"
    unfolding c(7) g1
    by (simp add: toy_defs shape1_def py_strip_def py_isspace_def py_whitespace_def
                  eval_nat_numeral)
  have a': "map (\<lambda>c. (input_ids c, do_sample c, suppress_tokens c, use_cache c,
                      options c ''max_new_tokens'')) (generate_calls (snd (snd ?one)))
             = [([[9, 9, 9, 1, 2]], True, None, True, Some (PyInt 300))]"
    unfolding c(6) using c(1-5) by (simp add: toy_world_def)
  let ?two = "infer_batch toy_lib toy_adapter [''cat.jpg'', ''dog.jpg''] [''a'', ''aba'']
                [''max_new_tokens'' \<mapsto> PyInt 5] toy_world"
  from C5_generation_options
         [where l = toy_lib and self = toy_adapter
            and images = "[''cat.jpg'', ''dog.jpg'']" and prompts = "[''a'', ''aba'']"
            and kw = "[''max_new_tokens'' \<mapsto> PyInt 5]" and w = toy_world,
          THEN conjunct2, THEN conjunct1, THEN mp, THEN mp, THEN mp,
          OF toy_scope toy_preprocess_batch_run nk(2)]
  obtain d where d: "input_ids d = [[9, 9, 9, 1, 0, 0], [9, 9, 9, 1, 2, 1]]"
      "do_sample d" "suppress_tokens d = None" "use_cache d"
      "options d ''max_new_tokens'' = Some (PyInt 5)"
      "generate_calls (snd (snd ?two)) = generate_calls toy_world @ [d]"
      "fst ?two =
         (case generate (model toy_adapter) d of
            Inl e \<Rightarrow> Inl e
          | Inr generate_ids \<Rightarrow>
              decode_rows (tokenizer toy_adapter)
                (shape1 [[9, 9, 9, 1, 0, 0], [9, 9, 9, 1, 2, 1]]) generate_ids [])"
    by auto
  have g2: "generate (model toy_adapter) d =
              Inr [[9, 9, 9, 1, 0, 0, 1, 2], [9, 9, 9, 1, 2, 1, 1, 2]]"
    using d(1,5) by (simp add: toy_defs)
  have b: "fst ?two = Inr [''ab'', ''ab'']"
    unfolding d(7) g2
    by (simp add: toy_defs shape1_def py_strip_def py_isspace_def py_whitespace_def
                  eval_nat_numeral)
  have b': "map (\<lambda>c. (input_ids c, do_sample c, suppress_tokens c, use_cache c,
                      options c ''max_new_tokens'')) (generate_calls (snd (snd ?two)))
             = [([[9, 9, 9, 1, 0, 0], [9, 9, 9, 1, 2, 1]], True, None, True, Some (PyInt 5))]"
    unfolding d(6) using d(1-5) by (simp add: toy_world_def)
  let ?bad = "infer toy_lib toy_adapter ''cat.jpg'' (Some ''ab'')
                [''max_new_tokens'' \<mapsto> PyInt (- 1)] toy_world"
  from C5_generation_options
         [where l = toy_lib and self = toy_adapter and image_path = "''cat.jpg''"
            and prompt = "Some ''ab''" and kw = "[''max_new_tokens'' \<mapsto> PyInt (- 1)]"
            and w = toy_world,
          THEN conjunct1, THEN mp, THEN mp, THEN mp, OF toy_scope toy_preprocess_run nk(3)]
  obtain x where x: "options x ''max_new_tokens'' = Some (PyInt (- 1))"
      "fst ?bad =
         (case generate (model toy_adapter) x of
            Inl e \<Rightarrow> Inl e
          | Inr out \<Rightarrow>
              (case out of
                 [] \<Rightarrow> Inl (IndexError ''index 0 is out of bounds'')
               | generate_ids # _ \<Rightarrow>
                   (case decode (tokenizer toy_adapter)
                           (drop (shape1 [[9, 9, 9, 1, 2]]) generate_ids) of
                      Inl e \<Rightarrow> Inl e
                    | Inr caption \<Rightarrow> Inr (py_strip caption))))"
    by auto
  have g3: "generate (model toy_adapter) x =
              Inl (ValueError ''max_new_tokens must be greater than 0'')"
    using x(1) by (simp add: toy_defs)
  have e: "fst ?bad = Inl (ValueError ''max_new_tokens must be greater than 0'')"
    unfolding x(2) g3 by simp
  from C5_generation_options
         [where l = toy_lib and self = toy_adapter and image_path = "''cat.jpg''"
            and prompt = "Some ''ab''" and kw = "[''do_sample'' \<mapsto> PyBool False]"
            and w = toy_world,
          THEN conjunct2, THEN conjunct2, THEN conjunct1, THEN mp, OF disjI2, OF disjI2, OF rk]
  have f: "generate_calls (snd (snd
        (infer toy_lib toy_adapter ''cat.jpg'' (Some ''ab'')
           [''do_sample'' \<mapsto> PyBool False] toy_world))) = []"
    by (simp add: toy_world_def)
  from a a' b b' e f show ?thesis by blast
qed

section \<open>Inference and the inference count\<close>

text \<open>What a successful \<^verbatim>\<open>preprocess_batch\<close> returned, and how many rows.\<close>

lemma preprocess_batch_Inr:
  assumes "preprocess_batch l self images prompts = Inr (imgs, ids, am)"
  shows "\<exists>rows. preprocess_pairs l self (zip images prompts) [] [] = Inr (imgs, rows)
           \<and> rows \<noteq> []
           \<and> ids = map (pad_right (Max (set (map length rows)))) rows
           \<and> am = map (mask_right (Max (set (map length rows)))) rows"
proof (cases "preprocess_pairs l self (zip images prompts) [] []")
  case (Inl e)
  with assms show ?thesis by (simp add: preprocess_batch_def)
next
  case (Inr res)
  obtain imgs' rows where res: "res = (imgs', rows)" by (cases res)
  from preprocess_batch_eq[of l self images prompts imgs' rows] Inr res assms
  show ?thesis by (auto split: if_splits)
qed

lemma preprocess_batch_lengths:
  assumes "preprocess_batch l self images prompts = Inr (imgs, ids, am)"
  shows "length imgs = min (length images) (length prompts)"
    and "length ids = min (length images) (length prompts)"
    and "0 < min (length images) (length prompts)"
proof -
  from preprocess_batch_Inr[OF assms] obtain rows where
    run: "preprocess_pairs l self (zip images prompts) [] [] = Inr (imgs, rows)" and
    ne: "rows \<noteq> []" and ids: "ids = map (pad_right (Max (set (map length rows)))) rows"
    by blast
  from preprocess_pairs_Inr[OF run] have
    len: "length imgs = length (zip images prompts)" "length rows = length (zip images prompts)"
    by auto
  from len show "length imgs = min (length images) (length prompts)" by simp
  from len ids show "length ids = min (length images) (length prompts)" by simp
  from len ne show "0 < min (length images) (length prompts)" by (cases rows) auto
qed

text \<open>The instance after a call: untouched on an exception, one count update otherwise.\<close>

lemma infer_result:
  assumes "infer l self image_path prompt kw w = (r, self', w')"
  shows "case r of Inl e \<Rightarrow> self' = self
         | Inr caption \<Rightarrow> self' = self\<lparr>stats := update_inference_count 1 (stats self)\<rparr>"
  using assms
  by (auto simp: infer_def split: option.splits sum.splits prod.splits list.splits)

lemma infer_batch_result:
  assumes "infer_batch l self images prompts kw w = (r, self', w')"
  shows "case r of Inl e \<Rightarrow> self' = self
         | Inr captions \<Rightarrow>
             self' = self\<lparr>stats := update_inference_count
                        (min (length images) (length prompts)) (stats self)\<rparr>"
proof (cases "autocast l (device self) (dtype self)")
  case (Some e)
  with assms show ?thesis by (auto simp: infer_batch_def)
next
  case None
  show ?thesis
  proof (cases "preprocess_batch l self images prompts")
    case (Inl e)
    with assms None show ?thesis by (auto simp: infer_batch_def)
  next
    case (Inr pre)
    obtain imgs ids am where pre: "pre = (imgs, ids, am)" by (cases pre)
    from preprocess_batch_lengths(1)[of l self images prompts imgs ids am] Inr pre
    have "length imgs = min (length images) (length prompts)" by simp
    with assms None Inr pre show ?thesis
      by (auto simp: infer_batch_def split: sum.splits prod.splits)
  qed
qed

text \<open>An exception of the generation call comes out of the adapter.\<close>

lemma infer_generation_raises:
  assumes "preprocess l self image_path prompt = Inr (img, ids, am)"
    and "fst (call_generate (model self) ids img am (default_max_new_tokens kw) w) = Inl e"
  shows "fst (snd (infer l self image_path prompt kw w)) = self"
    and "\<exists>e'. fst (infer l self image_path prompt kw w) = Inl e'"
    and "autocast l (device self) (dtype self) = None \<Longrightarrow>
           fst (infer l self image_path prompt kw w) = Inl e"
  using assms by (auto simp: infer_def split: option.splits prod.splits)

lemma infer_batch_generation_raises:
  assumes "preprocess_batch l self images prompts = Inr (imgs, ids, am)"
    and "fst (call_generate (model self) ids imgs am (default_max_new_tokens kw) w) = Inl e"
  shows "fst (snd (infer_batch l self images prompts kw w)) = self"
    and "\<exists>e'. fst (infer_batch l self images prompts kw w) = Inl e'"
    and "autocast l (device self) (dtype self) = None \<Longrightarrow>
           fst (infer_batch l self images prompts kw w) = Inl e"
  using assms by (auto simp: infer_batch_def split: option.splits prod.splits)

lemma infer_preprocessing_raises:
  assumes "preprocess l self image_path prompt = Inl e"
  shows "\<exists>e'. infer l self image_path prompt kw w = (Inl e', self, w)"
  using assms by (auto simp: infer_def split: option.splits)

lemma infer_batch_preprocessing_raises:
  assumes "preprocess_batch l self images prompts = Inl e"
  shows "\<exists>e'. infer_batch l self images prompts kw w = (Inl e', self, w)"
  using assms by (auto simp: infer_batch_def split: option.splits)

text \<open>
  C6. A call of \<^verbatim>\<open>infer\<close> that returns a caption leaves the instance as it was but
  for the inference count, which is 1 higher; a call of \<^verbatim>\<open>infer_batch\<close> that
  returns captions raises the count by the batch size, the number of (image, prompt)
  pairs. A call that raises, wherever it raises, leaves the instance unchanged. In
  particular, when preprocessing raises, or when the generation call raises, an
  exception comes out of \<^verbatim>\<open>infer\<close> and \<^verbatim>\<open>infer_batch\<close> with the count not updated
  (that very exception, once the autocast scope has been entered); and so does the
  exception of an autocast scope that cannot be built.
\<close>

theorem C6_inference_count:
  "(infer l self image_path prompt kw w = (r, self', w') \<longrightarrow>
      (case r of
         Inr caption \<Rightarrow>
           self' = self\<lparr>stats := update_inference_count 1 (stats self)\<rparr>
         \<and> inference_count (stats self') = inference_count (stats self) + 1
       | Inl e \<Rightarrow> self' = self))
 \<and> (infer_batch l self images prompts kw w = (rb, selfb', wb') \<longrightarrow>
      (case rb of
         Inr captions \<Rightarrow>
           selfb' = self\<lparr>stats := update_inference_count
                       (min (length images) (length prompts)) (stats self)\<rparr>
         \<and> inference_count (stats selfb') =
               inference_count (stats self) + min (length images) (length prompts)
       | Inl e \<Rightarrow> selfb' = self))
 \<and> (\<forall>e. preprocess l self image_path prompt = Inl e \<longrightarrow>
        (\<exists>e'. infer l self image_path prompt kw w = (Inl e', self, w))
        \<and> (autocast l (device self) (dtype self) = None \<longrightarrow>
             infer l self image_path prompt kw w = (Inl e, self, w)))
 \<and> (\<forall>e. preprocess_batch l self images prompts = Inl e \<longrightarrow>
        (\<exists>e'. infer_batch l self images prompts kw w = (Inl e', self, w))
        \<and> (autocast l (device self) (dtype self) = None \<longrightarrow>
             infer_batch l self images prompts kw w = (Inl e, self, w)))
 \<and> (\<forall>img ids am e. preprocess l self image_path prompt = Inr (img, ids, am) \<longrightarrow>
        fst (call_generate (model self) ids img am (default_max_new_tokens kw) w) = Inl e \<longrightarrow>
        fst (snd (infer l self image_path prompt kw w)) = self
        \<and> (\<exists>e'. fst (infer l self image_path prompt kw w) = Inl e')
        \<and> (autocast l (device self) (dtype self) = None \<longrightarrow>
             fst (infer l self image_path prompt kw w) = Inl e))
 \<and> (\<forall>imgs ids am e. preprocess_batch l self images prompts = Inr (imgs, ids, am) \<longrightarrow>
        fst (call_generate (model self) ids imgs am (default_max_new_tokens kw) w) = Inl e \<longrightarrow>
        fst (snd (infer_batch l self images prompts kw w)) = self
        \<and> (\<exists>e'. fst (infer_batch l self images prompts kw w) = Inl e')
        \<and> (autocast l (device self) (dtype self) = None \<longrightarrow>
             fst (infer_batch l self images prompts kw w) = Inl e))
 \<and> (\<forall>e. autocast l (device self) (dtype self) = Some e \<longrightarrow>
        infer l self image_path prompt kw w = (Inl e, self, w)
        \<and> infer_batch l self images prompts kw w = (Inl e, self, w))"
proof (intro conjI impI allI)
  assume "infer l self image_path prompt kw w = (r, self', w')"
  from infer_result[OF this] show "case r of
         Inr caption \<Rightarrow>
           self' = self\<lparr>stats := update_inference_count 1 (stats self)\<rparr>
         \<and> inference_count (stats self') = inference_count (stats self) + 1
       | Inl e \<Rightarrow> self' = self"
    by (simp add: update_inference_count_def split: sum.splits)
next
  assume "infer_batch l self images prompts kw w = (rb, selfb', wb')"
  from infer_batch_result[OF this] show "case rb of
         Inr captions \<Rightarrow>
           selfb' = self\<lparr>stats := update_inference_count
                       (min (length images) (length prompts)) (stats self)\<rparr>
         \<and> inference_count (stats selfb') =
               inference_count (stats self) + min (length images) (length prompts)
       | Inl e \<Rightarrow> selfb' = self"
    by (simp add: update_inference_count_def split: sum.splits)
next
  fix e assume p: "preprocess l self image_path prompt = Inl e"
  then show "\<exists>e'. infer l self image_path prompt kw w = (Inl e', self, w)"
    by (rule infer_preprocessing_raises)
  assume "autocast l (device self) (dtype self) = None"
  then show "infer l self image_path prompt kw w = (Inl e, self, w)"
    using p by (rule infer_preprocess_raises)
next
  fix e assume p: "preprocess_batch l self images prompts = Inl e"
  then show "\<exists>e'. infer_batch l self images prompts kw w = (Inl e', self, w)"
    by (rule infer_batch_preprocessing_raises)
  assume "autocast l (device self) (dtype self) = None"
  then show "infer_batch l self images prompts kw w = (Inl e, self, w)"
    using p by (rule infer_batch_preprocess_raises)
next
  fix img ids am e
  assume a: "preprocess l self image_path prompt = Inr (img, ids, am)"
    "fst (call_generate (model self) ids img am (default_max_new_tokens kw) w) = Inl e"
  show "fst (snd (infer l self image_path prompt kw w)) = self"
    by (rule infer_generation_raises(1)[OF a])
  show "\<exists>e'. fst (infer l self image_path prompt kw w) = Inl e'"
    by (rule infer_generation_raises(2)[OF a])
  assume "autocast l (device self) (dtype self) = None"
  then show "fst (infer l self image_path prompt kw w) = Inl e"
    by (rule infer_generation_raises(3)[OF a])
next
  fix imgs ids am e
  assume a: "preprocess_batch l self images prompts = Inr (imgs, ids, am)"
    "fst (call_generate (model self) ids imgs am (default_max_new_tokens kw) w) = Inl e"
  show "fst (snd (infer_batch l self images prompts kw w)) = self"
    by (rule infer_batch_generation_raises(1)[OF a])
  show "\<exists>e'. fst (infer_batch l self images prompts kw w) = Inl e'"
    by (rule infer_batch_generation_raises(2)[OF a])
  assume "autocast l (device self) (dtype self) = None"
  then show "fst (infer_batch l self images prompts kw w) = Inl e"
    by (rule infer_batch_generation_raises(3)[OF a])
next
  fix e assume s: "autocast l (device self) (dtype self) = Some e"
  then show "infer l self image_path prompt kw w = (Inl e, self, w)"
    by (rule infer_scope_raises)
  from s show "infer_batch l self images prompts kw w = (Inl e, self, w)"
    by (rule infer_batch_scope_raises)
qed

theorem C6_inference_count_witness:
  "inference_count (stats (fst (snd
      (infer toy_lib toy_adapter ''cat.jpg'' (Some ''ab'') Map.empty toy_world)))) =
     inference_count (stats toy_adapter) + 1
 \<and> inference_count (stats (fst (snd
      (infer_batch toy_lib toy_adapter [''cat.jpg'', ''dog.jpg''] [''a'', ''aba'']
         Map.empty toy_world)))) =
     inference_count (stats toy_adapter) + 2
 \<and> infer toy_lib toy_adapter ''missing.jpg'' (Some ''ab'') Map.empty toy_world =
      (Inl (ExternalError ''FileNotFoundError''), toy_adapter, toy_world)
 \<and> infer_batch toy_lib toy_adapter [''cat.jpg'', ''missing.jpg''] [''a'', ''aba'']
      Map.empty toy_world =
      (Inl (ExternalError ''FileNotFoundError''), toy_adapter, toy_world)
 \<and> fst (infer toy_lib toy_adapter ''cat.jpg'' (Some ''ab'')
          [''max_new_tokens'' \<mapsto> PyInt (- 1)] toy_world) =
      Inl (ValueError ''max_new_tokens must be greater than 0'')
 \<and> fst (snd (infer toy_lib toy_adapter ''cat.jpg'' (Some ''ab'')
          [''max_new_tokens'' \<mapsto> PyInt (- 1)] toy_world)) = toy_adapter
 \<and> fst (infer_batch toy_lib toy_adapter [''cat.jpg'', ''dog.jpg''] [''a'', ''aba'']
          [''max_new_tokens'' \<mapsto> PyInt (- 1)] toy_world) =
      Inl (ValueError ''max_new_tokens must be greater than 0'')
 \<and> fst (snd (infer_batch toy_lib toy_adapter [''cat.jpg'', ''dog.jpg''] [''a'', ''aba'']
          [''max_new_tokens'' \<mapsto> PyInt (- 1)] toy_world)) = toy_adapter
 \<and> infer toy_lib (toy_adapter\<lparr>device := ''meta''\<rparr>) ''cat.jpg'' (Some ''ab'')
      Map.empty toy_world =
      (Inl (ExternalError ''RuntimeError''), toy_adapter\<lparr>device := ''meta''\<rparr>, toy_world)"
proof -
  let ?one = "infer toy_lib toy_adapter ''cat.jpg'' (Some ''ab'') Map.empty toy_world"
  let ?two = "infer_batch toy_lib toy_adapter [''cat.jpg'', ''dog.jpg''] [''a'', ''aba'']
                Map.empty toy_world"
  have one: "?one = (fst ?one, fst (snd ?one), snd (snd ?one))" by simp
  have two: "?two = (fst ?two, fst (snd ?two), snd (snd ?two))" by simp
  note inst = C6_inference_count
    [of toy_lib toy_adapter "''cat.jpg''" "Some ''ab''" Map.empty toy_world
        "fst ?one" "fst (snd ?one)" "snd (snd ?one)"
        "[''cat.jpg'', ''dog.jpg'']" "[''a'', ''aba'']"
        "fst ?two" "fst (snd ?two)" "snd (snd ?two)"]
  have a: "inference_count (stats (fst (snd ?one))) = inference_count (stats toy_adapter) + 1"
    using inst [THEN conjunct1, THEN mp, OF one]
    by (simp add: toy_infer_run update_inference_count_def)
  have b: "inference_count (stats (fst (snd ?two))) = inference_count (stats toy_adapter) + 2"
    using inst [THEN conjunct2, THEN conjunct1, THEN mp, OF two]
    by (simp add: toy_infer_batch_run update_inference_count_def)
  have pre: "preprocess toy_lib toy_adapter ''missing.jpg'' (Some ''ab'') =
               Inl (ExternalError ''FileNotFoundError'')"
    by (simp add: run_defs toy_defs)
  have preb: "preprocess_batch toy_lib toy_adapter [''cat.jpg'', ''missing.jpg'']
                [''a'', ''aba''] = Inl (ExternalError ''FileNotFoundError'')"
    by (simp add: run_defs toy_defs eval_nat_numeral)
  note miss = C6_inference_count
    [where l = toy_lib and self = toy_adapter and image_path = "''missing.jpg''"
       and prompt = "Some ''ab''" and kw = Map.empty and w = toy_world
       and images = "[''cat.jpg'', ''missing.jpg'']" and prompts = "[''a'', ''aba'']"]
  from miss [THEN conjunct2, THEN conjunct2, THEN conjunct1, THEN spec, THEN mp, OF pre,
             THEN conjunct2, THEN mp, OF toy_scope]
  have c: "infer toy_lib toy_adapter ''missing.jpg'' (Some ''ab'') Map.empty toy_world =
      (Inl (ExternalError ''FileNotFoundError''), toy_adapter, toy_world)" .
  from miss [THEN conjunct2, THEN conjunct2, THEN conjunct2, THEN conjunct1,
             THEN spec, THEN mp, OF preb, THEN conjunct2, THEN mp, OF toy_scope]
  have c': "infer_batch toy_lib toy_adapter [''cat.jpg'', ''missing.jpg''] [''a'', ''aba'']
      Map.empty toy_world =
      (Inl (ExternalError ''FileNotFoundError''), toy_adapter, toy_world)" .
  have gen: "fst (call_generate (model toy_adapter) [[9, 9, 9, 1, 2]] [7] [[1, 1, 1, 1, 1]]
                (default_max_new_tokens [''max_new_tokens'' \<mapsto> PyInt (- 1)]) toy_world) =
             Inl (ValueError ''max_new_tokens must be greater than 0'')"
    by (simp add: run_defs toy_defs)
  have genb: "fst (call_generate (model toy_adapter)
                [[9, 9, 9, 1, 0, 0], [9, 9, 9, 1, 2, 1]] [7, 7]
                [[1, 1, 1, 1, 0, 0], [1, 1, 1, 1, 1, 1]]
                (default_max_new_tokens [''max_new_tokens'' \<mapsto> PyInt (- 1)]) toy_world) =
             Inl (ValueError ''max_new_tokens must be greater than 0'')"
    by (simp add: run_defs toy_defs)
  note raise = C6_inference_count
    [where l = toy_lib and self = toy_adapter and image_path = "''cat.jpg''"
       and prompt = "Some ''ab''" and kw = "[''max_new_tokens'' \<mapsto> PyInt (- 1)]"
       and w = toy_world
       and images = "[''cat.jpg'', ''dog.jpg'']" and prompts = "[''a'', ''aba'']"]
  note d0 = raise [THEN conjunct2, THEN conjunct2, THEN conjunct2, THEN conjunct2,
              THEN conjunct1, THEN spec, THEN spec, THEN spec, THEN spec, THEN mp, THEN mp,
              OF toy_preprocess_run gen]
  from d0 [THEN conjunct1] d0 [THEN conjunct2, THEN conjunct2, THEN mp, OF toy_scope]
  have d: "fst (infer toy_lib toy_adapter ''cat.jpg'' (Some ''ab'')
          [''max_new_tokens'' \<mapsto> PyInt (- 1)] toy_world) =
      Inl (ValueError ''max_new_tokens must be greater than 0'')
    \<and> fst (snd (infer toy_lib toy_adapter ''cat.jpg'' (Some ''ab'')
          [''max_new_tokens'' \<mapsto> PyInt (- 1)] toy_world)) = toy_adapter"
    by simp
  note d1 = raise [THEN conjunct2, THEN conjunct2, THEN conjunct2, THEN conjunct2,
              THEN conjunct2, THEN conjunct1,
              THEN spec, THEN spec, THEN spec, THEN spec, THEN mp, THEN mp,
              OF toy_preprocess_batch_run genb]
  from d1 [THEN conjunct1] d1 [THEN conjunct2, THEN conjunct2, THEN mp, OF toy_scope]
  have d': "fst (infer_batch toy_lib toy_adapter [''cat.jpg'', ''dog.jpg''] [''a'', ''aba'']
          [''max_new_tokens'' \<mapsto> PyInt (- 1)] toy_world) =
      Inl (ValueError ''max_new_tokens must be greater than 0'')
    \<and> fst (snd (infer_batch toy_lib toy_adapter [''cat.jpg'', ''dog.jpg''] [''a'', ''aba'']
          [''max_new_tokens'' \<mapsto> PyInt (- 1)] toy_world)) = toy_adapter"
    by simp
  have meta: "autocast toy_lib (device (toy_adapter\<lparr>device := ''meta''\<rparr>))
                (dtype (toy_adapter\<lparr>device := ''meta''\<rparr>)) =
              Some (ExternalError ''RuntimeError'')"
    by (simp add: toy_defs)
  from C6_inference_count
    [where l = toy_lib and self = "toy_adapter\<lparr>device := ''meta''\<rparr>"
       and image_path = "''cat.jpg''" and prompt = "Some ''ab''" and kw = Map.empty
       and w = toy_world,
     THEN conjunct2, THEN conjunct2, THEN conjunct2, THEN conjunct2, THEN conjunct2,
     THEN conjunct2, THEN spec, THEN mp, OF meta, THEN conjunct1]
  have s: "infer toy_lib (toy_adapter\<lparr>device := ''meta''\<rparr>) ''cat.jpg'' (Some ''ab'')
      Map.empty toy_world =
      (Inl (ExternalError ''RuntimeError''), toy_adapter\<lparr>device := ''meta''\<rparr>, toy_world)" .
  from a b c c' d d' s show ?thesis by blast
qed

section \<open>Trimming the prompt\<close>

text \<open>Stripping a string of whitespace leaves nothing.\<close>

lemma py_strip_spaces: "\<forall>c \<in> set s. py_isspace c \<Longrightarrow> py_strip s = []"
proof -
  assume "\<forall>c \<in> set s. py_isspace c"
  then have a: "dropWhile py_isspace s = []" by (simp add: dropWhile_eq_Nil_conv)
  show ?thesis unfolding py_strip_def a by simp
qed

text \<open>
  C9. When the generation call returns its input, that is zero new tokens, the row that
  \<^verbatim>\<open>infer\<close> cuts at the length of the encoded prompt is empty; and when the tokenizer
  decodes the empty sequence to nothing but whitespace, as tokenizers do, the caption is
  the empty string. The generation call is reached: the autocast scope is entered,
  preprocessing returns and no keyword is repeated.
\<close>

theorem C9_zero_new_tokens:
  assumes scope: "autocast l (device self) (dtype self) = None"
    and pre: "preprocess l self image_path prompt = Inr (img, ids, attn_mask)"
    and kw: "\<not> repeats_keyword kw"
    and gen: "generate (model self)
                \<lparr>input_ids = ids, pixel_values = img, attention_mask = attn_mask,
                 do_sample = True, suppress_tokens = None, use_cache = True,
                 options = default_max_new_tokens kw\<rparr> = Inr ids"
    and dec: "decode (tokenizer self) [] = Inr s"
    and sp: "\<forall>c \<in> set s. py_isspace c"
  shows "(\<exists>input_tokens. ids = [input_tokens] \<and> drop (shape1 ids) input_tokens = [])
       \<and> fst (infer l self image_path prompt kw w) = Inr ''''"
proof -
  from preprocess_Inr[OF pre] obtain input_tokens where ids: "ids = [input_tokens]"
    by blast
  have trim: "drop (shape1 ids) input_tokens = []" by (simp add: ids shape1_def)
  have "fst (infer l self image_path prompt kw w) = Inr (py_strip s)"
    unfolding infer_generates[OF scope pre kw refl refl] gen
    using dec trim ids by simp
  with sp ids trim show ?thesis by (simp add: py_strip_spaces)
qed

theorem C9_zero_new_tokens_witness:
  "fst (infer toy_lib toy_adapter ''cat.jpg'' (Some ''ab'')
          [''max_new_tokens'' \<mapsto> PyInt 0] toy_world) = Inr ''''"
proof -
  have kw: "\<not> repeats_keyword [''max_new_tokens'' \<mapsto> PyInt 0]"
    by (simp add: repeats_keyword_def explicit_keywords_def)
  have gen: "generate (model toy_adapter)
                \<lparr>input_ids = [[9, 9, 9, 1, 2]], pixel_values = [7],
                 attention_mask = [[1, 1, 1, 1, 1]],
                 do_sample = True, suppress_tokens = None, use_cache = True,
                 options = default_max_new_tokens [''max_new_tokens'' \<mapsto> PyInt 0]\<rparr>
             = Inr [[9, 9, 9, 1, 2]]"
    by (simp add: toy_defs default_max_new_tokens_def)
  have dec: "decode (tokenizer toy_adapter) [] = Inr ''''" by (simp add: toy_defs)
  from C9_zero_new_tokens [OF toy_scope toy_preprocess_run kw gen dec]
  show ?thesis by simp
qed

text \<open>
  The decoding loop returns one stripped caption per generated row, each decoded from the
  row cut at the same column.
\<close>

lemma decode_rows_Inr:
  "decode_rows tok n G acc = Inr captions \<Longrightarrow>
   \<exists>cs. captions = acc @ cs \<and> length cs = length G \<and>
     (\<forall>i < length G. \<exists>s. decode tok (drop n (G ! i)) = Inr s \<and> cs ! i = py_strip s)"
proof (induction G arbitrary: acc)
  case Nil
  then show ?case by simp
next
  case (Cons g G)
  from Cons.prems obtain s where
    s: "decode tok (drop n g) = Inr s" and
    rest: "decode_rows tok n G (acc @ [py_strip s]) = Inr captions"
    by (auto split: sum.splits)
  from Cons.IH[OF rest] obtain cs where
    cs: "captions = (acc @ [py_strip s]) @ cs" "length cs = length G" and
    each: "\<forall>i < length G. \<exists>s. decode tok (drop n (G ! i)) = Inr s \<and> cs ! i = py_strip s"
    by blast
  have "\<forall>i < length (g # G). \<exists>t. decode tok (drop n ((g # G) ! i)) = Inr t \<and>
          (py_strip s # cs) ! i = py_strip t"
  proof (intro allI impI)
    fix i assume "i < length (g # G)"
    then show "\<exists>t. decode tok (drop n ((g # G) ! i)) = Inr t \<and>
          (py_strip s # cs) ! i = py_strip t"
      using s each by (cases i) simp_all
  qed
  with cs show ?case by (intro exI[of _ "py_strip s # cs"]) simp
qed

lemma decode_rows_total:
  "\<forall>g \<in> set G. \<exists>s. decode tok (drop n g) = Inr s \<Longrightarrow>
   \<exists>captions. decode_rows tok n G acc = Inr captions"
proof (induction G arbitrary: acc)
  case Nil
  then show ?case by simp
next
  case (Cons g G)
  then obtain s where "decode tok (drop n g) = Inr s" by auto
  moreover have "\<forall>g \<in> set G. \<exists>s. decode tok (drop n g) = Inr s" using Cons.prems by simp
  ultimately show ?case using Cons.IH by simp
qed

text \<open>The width of the padded matrix, and what a successful \<^verbatim>\<open>infer_batch\<close> went through.\<close>

lemma shape1_padded:
  assumes "rows \<noteq> []"
  shows "shape1 (map (pad_right (Max (set (map length rows)))) rows) = Max (set (map length rows))"
proof -
  obtain r rs where rows: "rows = r # rs" using assms by (cases rows) auto
  have "length r \<le> Max (set (map length rows))" by (simp add: rows)
  then show ?thesis by (simp add: rows shape1_def pad_right_def)
qed

lemma infer_batch_Inr:
  assumes pb: "preprocess_batch l self images prompts = Inr (imgs, ids, am)"
    and ib: "infer_batch l self images prompts kw w = (Inr captions, self', w')"
  shows "\<exists>G. generate (model self)
                \<lparr>input_ids = ids, pixel_values = imgs, attention_mask = am,
                 do_sample = True, suppress_tokens = None, use_cache = True,
                 options = default_max_new_tokens kw\<rparr> = Inr G
            \<and> decode_rows (tokenizer self) (shape1 ids) G [] = Inr captions"
  using pb ib
  by (auto simp: infer_batch_def call_generate_def Let_def
           split: option.splits if_splits sum.splits)

text \<open>
  C4. In a call of \<^verbatim>\<open>infer_batch\<close> that returns, every generated row is cut at one
  and the same column before it is decoded: \<open>shape1 ids\<close>, the number of columns of the
  padded token-id matrix, which is the greatest of the examples' true lengths. It is not
  the row's own true length: for a row whose sequence is shorter than the width, and whose
  generated row is longer than that sequence, the tokens kept differ from those a cut at
  the row's true length would keep.
\<close>

theorem C4_shared_trim_width:
  assumes pb: "preprocess_batch l self images prompts = Inr (imgs, ids, am)"
    and ib: "infer_batch l self images prompts kw w = (Inr captions, self', w')"
  shows "\<exists>G rows.
      generate (model self)
        \<lparr>input_ids = ids, pixel_values = imgs, attention_mask = am,
         do_sample = True, suppress_tokens = None, use_cache = True,
         options = default_max_new_tokens kw\<rparr> = Inr G
    \<and> length rows = min (length images) (length prompts)
    \<and> (\<forall>i < length rows. \<exists>toks.
           convo_tokens (tokenizer self) (Some (prompts ! i)) = Inr toks \<and>
           rows ! i = repeat_image_tokens (config (model self)) [] toks)
    \<and> shape1 ids = Max (set (map length rows))
    \<and> (\<forall>row \<in> set ids. length row = shape1 ids)
    \<and> length captions = length G
    \<and> (\<forall>i < length G. \<exists>s.
           decode (tokenizer self) (drop (shape1 ids) (G ! i)) = Inr s \<and>
           captions ! i = py_strip s)
    \<and> (\<forall>i < length rows.
           i < length G \<longrightarrow> length (rows ! i) < shape1 ids \<longrightarrow>
           length (rows ! i) < length (G ! i) \<longrightarrow>
           drop (shape1 ids) (G ! i) \<noteq> drop (length (rows ! i)) (G ! i))"
proof -
  from preprocess_batch_Inr[OF pb] obtain rows where
    run: "preprocess_pairs l self (zip images prompts) [] [] = Inr (imgs, rows)" and
    ne: "rows \<noteq> []" and
    ids: "ids = map (pad_right (Max (set (map length rows)))) rows"
    by blast
  let ?W = "Max (set (map length rows))"
  from preprocess_pairs_Inr[OF run] have
    len: "length rows = length (zip images prompts)" and
    row: "\<forall>i < length (zip images prompts). \<exists>toks.
            convo_tokens (tokenizer self) (Some (snd (zip images prompts ! i))) = Inr toks \<and>
            rows ! i = repeat_image_tokens (config (model self)) [] toks"
    by auto
  have rows: "\<forall>i < length rows. \<exists>toks.
           convo_tokens (tokenizer self) (Some (prompts ! i)) = Inr toks \<and>
           rows ! i = repeat_image_tokens (config (model self)) [] toks"
    using row len by auto
  have width: "shape1 ids = ?W" unfolding ids by (rule shape1_padded[OF ne])
  have cols: "\<forall>r \<in> set ids. length r = shape1 ids"
  proof
    fix r assume "r \<in> set ids"
    then obtain x where x: "x \<in> set rows" "r = pad_right ?W x" unfolding ids by auto
    then have "length x \<le> ?W" by simp
    with x show "length r = shape1 ids" by (simp add: width pad_right_def)
  qed
  from infer_batch_Inr[OF pb ib] obtain G where
    gen: "generate (model self)
        \<lparr>input_ids = ids, pixel_values = imgs, attention_mask = am,
         do_sample = True, suppress_tokens = None, use_cache = True,
         options = default_max_new_tokens kw\<rparr> = Inr G" and
    dr: "decode_rows (tokenizer self) (shape1 ids) G [] = Inr captions"
    by blast
  from decode_rows_Inr[OF dr] have
    caps: "length captions = length G"
      "\<forall>i < length G. \<exists>s. decode (tokenizer self) (drop (shape1 ids) (G ! i)) = Inr s \<and>
           captions ! i = py_strip s"
    by auto
  have differ: "\<forall>i < length rows.
           i < length G \<longrightarrow> length (rows ! i) < shape1 ids \<longrightarrow>
           length (rows ! i) < length (G ! i) \<longrightarrow>
           drop (shape1 ids) (G ! i) \<noteq> drop (length (rows ! i)) (G ! i)"
  proof (intro allI impI)
    fix i
    assume "length (rows ! i) < shape1 ids" "length (rows ! i) < length (G ! i)"
    then have "length (drop (shape1 ids) (G ! i)) \<noteq> length (drop (length (rows ! i)) (G ! i))"
      by simp
    then show "drop (shape1 ids) (G ! i) \<noteq> drop (length (rows ! i)) (G ! i)" by metis
  qed
  show ?thesis
    using gen len rows width cols caps differ
    by (intro exI[of _ G] exI[of _ rows]) simp
qed

theorem C4_shared_trim_width_witness:
  "fst (infer_batch toy_lib toy_adapter [''cat.jpg'', ''dog.jpg''] [''a'', ''aba'']
          Map.empty toy_world) = Inr [''ab'', ''ab'']
 \<and> generate toy_model
        \<lparr>input_ids = [[9, 9, 9, 1, 0, 0], [9, 9, 9, 1, 2, 1]], pixel_values = [7, 7],
         attention_mask = [[1, 1, 1, 1, 0, 0], [1, 1, 1, 1, 1, 1]],
         do_sample = True, suppress_tokens = None, use_cache = True,
         options = [''max_new_tokens'' \<mapsto> PyInt 300]\<rparr>
      = Inr [[9, 9, 9, 1, 0, 0, 1, 2], [9, 9, 9, 1, 2, 1, 1, 2]]
 \<and> shape1 [[9, 9, 9, 1, 0, 0], [9, 9, 9, 1, 2, 1]] = 6
 \<and> decode toy_tokenizer (drop 6 [9, 9, 9, 1, 0, 0, 1, 2]) = Inr ''ab''
 \<and> decode toy_tokenizer (drop 4 [9, 9, 9, 1, 0, 0, 1, 2]) = Inr ''!!ab''"
proof -
  let ?two = "infer_batch toy_lib toy_adapter [''cat.jpg'', ''dog.jpg''] [''a'', ''aba'']
                Map.empty toy_world"
  have two: "?two = (Inr [''ab'', ''ab''], fst (snd ?two), snd (snd ?two))"
    using toy_infer_batch_run by (metis prod.collapse)
  from C4_shared_trim_width [OF toy_preprocess_batch_run two]
  have a: "\<exists>G. length [''ab'', ''ab''] = length (G :: int list list)" by blast
  have b: "generate toy_model
        \<lparr>input_ids = [[9, 9, 9, 1, 0, 0], [9, 9, 9, 1, 2, 1]], pixel_values = [7, 7],
         attention_mask = [[1, 1, 1, 1, 0, 0], [1, 1, 1, 1, 1, 1]],
         do_sample = True, suppress_tokens = None, use_cache = True,
         options = [''max_new_tokens'' \<mapsto> PyInt 300]\<rparr>
      = Inr [[9, 9, 9, 1, 0, 0, 1, 2], [9, 9, 9, 1, 2, 1, 1, 2]]"
    by (simp add: toy_defs)
  have c: "shape1 [[9, 9, 9, 1, 0, 0], [9, 9, 9, 1, 2, 1]] = 6" by (simp add: shape1_def)
  have d: "decode toy_tokenizer (drop 6 [9, 9, 9, 1, 0, 0, 1, 2]) = Inr ''ab''"
          "decode toy_tokenizer (drop 4 [9, 9, 9, 1, 0, 0, 1, 2]) = Inr ''!!ab''"
    by (simp_all add: toy_defs eval_nat_numeral)
  from a b c d toy_infer_batch_run show ?thesis by blast
qed

section \<open>Lists of unequal length\<close>

text \<open>\<^verbatim>\<open>zip\<close> stops at the shorter list, and nothing else reads the lists.\<close>

lemma zip_take_min:
  "zip (take (min (length xs) (length ys)) xs) (take (min (length xs) (length ys)) ys) = zip xs ys"
proof -
  have "zip (take (min (length xs) (length ys)) xs) (take (min (length xs) (length ys)) ys)
          = take (length (zip xs ys)) (zip xs ys)"
    by (simp add: take_zip)
  then show ?thesis by simp
qed

lemma preprocess_batch_truncates:
  "preprocess_batch l self images prompts =
   preprocess_batch l self (take (min (length images) (length prompts)) images)
                           (take (min (length images) (length prompts)) prompts)"
  by (simp only: preprocess_batch_def zip_take_min)

lemma infer_batch_truncates:
  "infer_batch l self images prompts kw w =
   infer_batch l self (take (min (length images) (length prompts)) images)
                      (take (min (length images) (length prompts)) prompts) kw w"
  unfolding infer_batch_def
  by (subst preprocess_batch_truncates) (rule refl)

text \<open>With nothing to pair, line 156 raises: the empty batch.\<close>

lemma infer_batch_no_pairs:
  assumes "images = [] \<or> prompts = []"
    and "autocast l (device self) (dtype self) = None"
  shows "infer_batch l self images prompts kw w =
           (Inl (ValueError ''max() iterable argument is empty''), self, w)"
proof -
  from assms(1) have z: "zip images prompts = []" by auto
  show ?thesis
    unfolding infer_batch_def preprocess_batch_def z
    by (simp add: max_length_of_def assms(2))
qed

text \<open>
  C10. A call of \<^verbatim>\<open>infer_batch\<close> on lists of unequal length is the call on their first
  \<open>min (len images) (len prompts)\<close> elements: the pairing truncates to the shorter list
  and the surplus is never read. On a batch that is not empty the mismatch raises
  nothing: when the autocast scope is entered, the images and prompts of those pairs
  load and tokenize, the caller repeats no keyword, and on this call's record the model
  returns one row per input row, each of which the tokenizer decodes once trimmed, the
  call returns, the caption list has that minimum of entries and the inference count has
  grown by that minimum. Whenever the call returns, the count has grown by that minimum
  and there is one caption per row the model returned on this call's record.
\<close>

theorem C10_unequal_lengths_truncate:
  "infer_batch l self images prompts kw w =
     infer_batch l self (take (min (length images) (length prompts)) images)
                        (take (min (length images) (length prompts)) prompts) kw w
 \<and> (images \<noteq> [] \<and> prompts \<noteq> []
     \<and> autocast l (device self) (dtype self) = None
     \<and> (\<forall>i < min (length images) (length prompts).
           (\<exists>im. load_image l (images ! i) (dtype self) = Inr im) \<and>
           (\<exists>toks. convo_tokens (tokenizer self) (Some (prompts ! i)) = Inr toks))
     \<and> \<not> repeats_keyword kw
     \<and> (\<forall>imgs ids am. preprocess_batch l self images prompts = Inr (imgs, ids, am) \<longrightarrow>
           (\<exists>G. generate (model self)
                   \<lparr>input_ids = ids, pixel_values = imgs, attention_mask = am,
                    do_sample = True, suppress_tokens = None, use_cache = True,
                    options = default_max_new_tokens kw\<rparr> = Inr G
               \<and> length G = length ids
               \<and> (\<forall>g \<in> set G. \<exists>s.
                     decode (tokenizer self) (drop (shape1 ids) g) = Inr s)))
     \<longrightarrow> (\<exists>captions self' w'.
            infer_batch l self images prompts kw w = (Inr captions, self', w')
          \<and> length captions = min (length images) (length prompts)
          \<and> inference_count (stats self') =
              inference_count (stats self) + min (length images) (length prompts)))
 \<and> (\<forall>captions self' w'.
       infer_batch l self images prompts kw w = (Inr captions, self', w') \<longrightarrow>
         inference_count (stats self') =
           inference_count (stats self) + min (length images) (length prompts)
       \<and> (\<exists>imgs ids am G.
             preprocess_batch l self images prompts = Inr (imgs, ids, am)
           \<and> length ids = min (length images) (length prompts)
           \<and> generate (model self)
                \<lparr>input_ids = ids, pixel_values = imgs, attention_mask = am,
                 do_sample = True, suppress_tokens = None, use_cache = True,
                 options = default_max_new_tokens kw\<rparr> = Inr G
           \<and> length captions = length G))"
proof (intro conjI allI impI)
  show "infer_batch l self images prompts kw w =
     infer_batch l self (take (min (length images) (length prompts)) images)
                        (take (min (length images) (length prompts)) prompts) kw w"
    by (rule infer_batch_truncates)
next
  assume h: "images \<noteq> [] \<and> prompts \<noteq> []
     \<and> autocast l (device self) (dtype self) = None
     \<and> (\<forall>i < min (length images) (length prompts).
           (\<exists>im. load_image l (images ! i) (dtype self) = Inr im) \<and>
           (\<exists>toks. convo_tokens (tokenizer self) (Some (prompts ! i)) = Inr toks))
     \<and> \<not> repeats_keyword kw
     \<and> (\<forall>imgs ids am. preprocess_batch l self images prompts = Inr (imgs, ids, am) \<longrightarrow>
           (\<exists>G. generate (model self)
                   \<lparr>input_ids = ids, pixel_values = imgs, attention_mask = am,
                    do_sample = True, suppress_tokens = None, use_cache = True,
                    options = default_max_new_tokens kw\<rparr> = Inr G
               \<and> length G = length ids
               \<and> (\<forall>g \<in> set G. \<exists>s.
                     decode (tokenizer self) (drop (shape1 ids) g) = Inr s)))"
  then have ne: "images \<noteq> []" "prompts \<noteq> []"
    and scope: "autocast l (device self) (dtype self) = None"
    and ext: "\<forall>i < min (length images) (length prompts).
           (\<exists>im. load_image l (images ! i) (dtype self) = Inr im) \<and>
           (\<exists>toks. convo_tokens (tokenizer self) (Some (prompts ! i)) = Inr toks)"
    and nk: "\<not> repeats_keyword kw"
    by blast+
  from preprocess_batch_returns[OF ne ext] obtain imgs ids am where
    pb: "preprocess_batch l self images prompts = Inr (imgs, ids, am)" by blast
  let ?c = "\<lparr>input_ids = ids, pixel_values = imgs, attention_mask = am,
             do_sample = True, suppress_tokens = None, use_cache = True,
             options = default_max_new_tokens kw\<rparr>"
  from h pb obtain G where
    G: "generate (model self) ?c = Inr G" and
    rows: "length G = length ids" and
    dec: "\<forall>g \<in> set G. \<exists>s. decode (tokenizer self) (drop (shape1 ids) g) = Inr s"
    by blast
  from decode_rows_total[OF dec, of "[]"] obtain captions where
    dr: "decode_rows (tokenizer self) (shape1 ids) G [] = Inr captions" by blast
  from decode_rows_Inr[OF dr] have lc: "length captions = length G" by auto
  have run: "infer_batch l self images prompts kw w =
        (Inr captions,
         self\<lparr>stats := update_inference_count (length imgs) (stats self)\<rparr>,
         w\<lparr>generate_calls := generate_calls w @ [?c]\<rparr>)"
    unfolding infer_batch_generates[OF scope pb nk refl refl] G by (simp add: dr)
  have "length captions = min (length images) (length prompts)"
    using lc rows preprocess_batch_lengths(2)[OF pb] by simp
  moreover have "inference_count
        (stats (self\<lparr>stats := update_inference_count (length imgs) (stats self)\<rparr>)) =
      inference_count (stats self) + min (length images) (length prompts)"
    using preprocess_batch_lengths(1)[OF pb] by (simp add: update_inference_count_def)
  ultimately show "\<exists>captions self' w'.
            infer_batch l self images prompts kw w = (Inr captions, self', w')
          \<and> length captions = min (length images) (length prompts)
          \<and> inference_count (stats self') =
              inference_count (stats self) + min (length images) (length prompts)"
    using run by blast
next
  fix captions self' w'
  assume ib: "infer_batch l self images prompts kw w = (Inr captions, self', w')"
  from infer_batch_result[OF ib]
  show "inference_count (stats self') =
           inference_count (stats self) + min (length images) (length prompts)"
    by (simp add: update_inference_count_def)
  from ib obtain imgs ids am where
    pb: "preprocess_batch l self images prompts = Inr (imgs, ids, am)"
    by (cases "preprocess_batch l self images prompts")
       (auto simp: infer_batch_def split: option.splits)
  from infer_batch_Inr[OF pb ib] obtain G where
    gen: "generate (model self)
        \<lparr>input_ids = ids, pixel_values = imgs, attention_mask = am,
         do_sample = True, suppress_tokens = None, use_cache = True,
         options = default_max_new_tokens kw\<rparr> = Inr G" and
    dr: "decode_rows (tokenizer self) (shape1 ids) G [] = Inr captions"
    by blast
  from decode_rows_Inr[OF dr] have "length captions = length G" by auto
  with pb gen preprocess_batch_lengths(2)[OF pb]
  show "\<exists>imgs ids am G.
             preprocess_batch l self images prompts = Inr (imgs, ids, am)
           \<and> length ids = min (length images) (length prompts)
           \<and> generate (model self)
                \<lparr>input_ids = ids, pixel_values = imgs, attention_mask = am,
                 do_sample = True, suppress_tokens = None, use_cache = True,
                 options = default_max_new_tokens kw\<rparr> = Inr G
           \<and> length captions = length G"
    by blast
qed

theorem C10_unequal_lengths_truncate_witness:
  "(\<exists>self' w'.
      infer_batch toy_lib toy_adapter [''cat.jpg'', ''dog.jpg'', ''owl.jpg''] [''a'', ''aba'']
        Map.empty toy_world = (Inr [''ab'', ''ab''], self', w')
    \<and> inference_count (stats self') = inference_count (stats toy_adapter) + 2)
 \<and> infer_batch toy_lib toy_adapter [''cat.jpg'', ''dog.jpg'', ''owl.jpg''] [''a'', ''aba'']
      Map.empty toy_world =
    infer_batch toy_lib toy_adapter [''cat.jpg'', ''dog.jpg''] [''a'', ''aba'']
      Map.empty toy_world"
proof -
  let ?imgs = "[''cat.jpg'', ''dog.jpg'', ''owl.jpg'']"
  let ?prs = "[''a'', ''aba'']"
  let ?three = "infer_batch toy_lib toy_adapter ?imgs ?prs Map.empty toy_world"
  let ?two = "infer_batch toy_lib toy_adapter [''cat.jpg'', ''dog.jpg''] [''a'', ''aba'']
                Map.empty toy_world"
  note inst = C10_unequal_lengths_truncate [of toy_lib toy_adapter ?imgs ?prs Map.empty toy_world]
  from inst [THEN conjunct1] have eq: "?three = ?two" by simp
  have pb3: "preprocess_batch toy_lib toy_adapter ?imgs ?prs =
     Inr ([7, 7], [[9, 9, 9, 1, 0, 0], [9, 9, 9, 1, 2, 1]],
                  [[1, 1, 1, 1, 0, 0], [1, 1, 1, 1, 1, 1]])"
    by (simp add: run_defs toy_defs eval_nat_numeral)
  have ext: "\<forall>i < min (length ?imgs) (length ?prs).
           (\<exists>im. load_image toy_lib (?imgs ! i) (dtype toy_adapter) = Inr im) \<and>
           (\<exists>toks. convo_tokens (tokenizer toy_adapter) (Some (?prs ! i)) = Inr toks)"
    by (simp add: toy_defs less_Suc_eq nth_Cons')
  have nk: "\<not> repeats_keyword Map.empty"
    by (simp add: repeats_keyword_def)
  have gen: "\<forall>imgs ids am. preprocess_batch toy_lib toy_adapter ?imgs ?prs = Inr (imgs, ids, am) \<longrightarrow>
           (\<exists>G. generate (model toy_adapter)
                   \<lparr>input_ids = ids, pixel_values = imgs, attention_mask = am,
                    do_sample = True, suppress_tokens = None, use_cache = True,
                    options = default_max_new_tokens Map.empty\<rparr> = Inr G
               \<and> length G = length ids
               \<and> (\<forall>g \<in> set G. \<exists>s.
                     decode (tokenizer toy_adapter) (drop (shape1 ids) g) = Inr s))"
    unfolding pb3 by (simp add: toy_defs default_max_new_tokens_def)
  from inst [THEN conjunct2, THEN conjunct1] toy_scope ext nk gen
  obtain captions self' w' where
    r: "?three = (Inr captions, self', w')"
       "length captions = min (length ?imgs) (length ?prs)"
       "inference_count (stats self') =
          inference_count (stats toy_adapter) + min (length ?imgs) (length ?prs)"
    by auto
  have "fst ?three = Inr [''ab'', ''ab'']"
    unfolding eq by (rule toy_infer_batch_run)
  with r have "captions = [''ab'', ''ab'']" by simp
  with r have "?three = (Inr [''ab'', ''ab''], self', w')
      \<and> inference_count (stats self') = inference_count (stats toy_adapter) + 2"
    by simp
  with eq show ?thesis by blast
qed

end
